theory Spec2Isabelle
  imports Main
begin

section \<open>Python strings and the regular expressions of the pipeline\<close>

text \<open>
  A Python \<open>str\<close> is modelled as a \<open>string\<close> (a list of 8-bit characters), so the
  model covers ASCII text: \<open>lower\<close> acts on \<open>A\<close>..\<open>Z\<close>, \<open>\d\<close> is \<open>0\<close>..\<open>9\<close> and
  whitespace is the ASCII whitespace of \<open>str.isspace\<close>.
\<close>

datatype exn =
    ValueError string
  | GeminiError
  | DatabaseError
  | AttributeError
  | TypeError

definition startswith :: "string \<Rightarrow> string \<Rightarrow> bool" where
  "startswith s p \<longleftrightarrow> take (length p) s = p"

definition endswith :: "string \<Rightarrow> string \<Rightarrow> bool" where
  "endswith s e \<longleftrightarrow> length e \<le> length s \<and> drop (length s - length e) s = e"

text \<open>\<open>s.rstrip('/')\<close>: every trailing occurrence of the character is removed.\<close>

definition rstrip :: "char \<Rightarrow> string \<Rightarrow> string" where
  "rstrip c s = rev (dropWhile (\<lambda>x. x = c) (rev s))"

text \<open>
  \<open>s.replace(old, new)\<close>: all non-overlapping occurrences, leftmost first. With an
  empty \<open>old\<close> Python inserts \<open>new\<close> before every character and at the end.
\<close>

fun replace :: "string \<Rightarrow> string \<Rightarrow> string \<Rightarrow> string" where
  "replace [] new s = new @ concat (map (\<lambda>c. c # new) s)"
| "replace (x # xs) new [] = []"
| "replace (x # xs) new (c # cs) =
     (if take (Suc (length xs)) (c # cs) = x # xs
      then new @ replace (x # xs) new (drop (length xs) cs)
      else c # replace (x # xs) new cs)"

definition is_digit :: "char \<Rightarrow> bool" where
  "is_digit c \<longleftrightarrow> c \<in> set ''0123456789''"

definition not_slash :: "char \<Rightarrow> bool" where
  "not_slash c \<longleftrightarrow> c \<noteq> CHR ''/''"

text \<open>
  \<open>re.search(pattern, s)\<close> tries the pattern at every start index from the left and
  returns the first match. The argument \<open>m\<close> matches one pattern at the start of
  its input.
\<close>

fun re_search :: "(string \<Rightarrow> 'a option) \<Rightarrow> string \<Rightarrow> 'a option" where
  "re_search m [] = m []"
| "re_search m (c # cs) = (case m (c # cs) of Some r \<Rightarrow> Some r | None \<Rightarrow> re_search m cs)"

text \<open>
  \<open>github\.com/([^/]+)/([^/]+)\<close> anchored at the start of \<open>s\<close>. A greedy \<open>[^/]+\<close>
  that is followed by a literal \<open>/\<close> can only match the whole run of non-slash
  characters: any shorter match leaves a non-slash character where the \<open>/\<close> is due.
\<close>

definition match_repo :: "string \<Rightarrow> (string \<times> string) option" where
  "match_repo s =
     (if startswith s ''github.com/'' then
        (let r1 = drop 11 s;
             g1 = takeWhile not_slash r1;
             r2 = dropWhile not_slash r1
         in if g1 = [] \<or> r2 = [] then None
            else (let g2 = takeWhile not_slash (tl r2)
                  in if g2 = [] then None else Some (g1, g2)))
      else None)"

text \<open>
  \<open>github\.com/([^/]+)/([^/]+)/tree/[^/]+/(.+)\<close> anchored at the start of \<open>s\<close>.
  The final \<open>.+\<close> is greedy and \<open>.\<close> matches every character but a newline.
\<close>

definition match_tree :: "string \<Rightarrow> (string \<times> string \<times> string) option" where
  "match_tree s =
     (if startswith s ''github.com/'' then
        (let r1 = drop 11 s;
             g1 = takeWhile not_slash r1;
             r2 = dropWhile not_slash r1
         in if g1 = [] \<or> r2 = [] then None
            else (let g2 = takeWhile not_slash (tl r2);
                      r3 = dropWhile not_slash (tl r2)
                  in if g2 = [] \<or> \<not> startswith r3 ''/tree/'' then None
                     else (let r4 = drop 6 r3;
                               branch = takeWhile not_slash r4;
                               r5 = dropWhile not_slash r4
                           in if branch = [] \<or> r5 = [] then None
                              else (let g3 = takeWhile (\<lambda>c. c \<noteq> CHR ''\<newline>'') (tl r5)
                                    in if g3 = [] then None else Some (g1, g2, g3)))))
      else None)"

subsection \<open>SourceLocator: \<open>parse_github_url\<close>\<close>

definition parse_github_url :: "string \<Rightarrow> exn + (string \<times> string \<times> string)" where
  "parse_github_url url0 =
     (let url = rstrip (CHR ''/'') url0
      in case re_search match_tree url of
           Some (owner, repo, path) \<Rightarrow> Inr (owner, replace ''.git'' '''' repo, path)
         | None \<Rightarrow>
             (case re_search match_repo url of
                Some (owner, repo) \<Rightarrow> Inr (owner, replace ''.git'' '''' repo, '''')
              | None \<Rightarrow> Inl (ValueError ''Invalid GitHub URL format'')))"

subsection \<open>Classifier: \<open>extract_problem_number\<close>\<close>

text \<open>\<open>(\d{1,4})\<close> anchored at the start of \<open>s\<close>: greedy, at most four digits.\<close>

definition match_digits :: "string \<Rightarrow> string option" where
  "match_digits s =
     (let d = take 4 (takeWhile is_digit s) in if d = [] then None else Some d)"

text \<open>\<open>(\d{4})\<close> anchored at the start of \<open>s\<close>.\<close>

definition match_four :: "string \<Rightarrow> string option" where
  "match_four s =
     (let d = take 4 s in if length d = 4 \<and> (\<forall>c \<in> set d. is_digit c) then Some d else None)"

text \<open>
  \<open>problem[_-]?(\d{4})\<close> anchored at the start of \<open>s\<close>: the optional separator is
  tried first (greedy), and on failure the match is retried without it.
\<close>

definition match_problem :: "string \<Rightarrow> string option" where
  "match_problem s =
     (if startswith s ''problem'' then
        (let r = drop 7 s
         in case (if r \<noteq> [] \<and> hd r \<in> set ''_-'' then match_four (tl r) else None) of
              Some d \<Rightarrow> Some d
            | None \<Rightarrow> match_four r)
      else None)"

definition extract_problem_number :: "string \<Rightarrow> string \<Rightarrow> string" where
  "extract_problem_number filename path =
     (case re_search match_digits filename of
        Some d \<Rightarrow> d
      | None \<Rightarrow>
          (case re_search match_problem path of
             Some d \<Rightarrow> d
           | None \<Rightarrow> ''Unknown''))"

text \<open>
  The specification's wording of the path pattern, for comparison: at index \<open>i\<close> of
  the path stands the word \<open>problem\<close>, then at most one of \<open>-\<close> and \<open>_\<close>, then four
  digits, which are the result.
\<close>

definition spec_problem_at :: "string \<Rightarrow> nat \<Rightarrow> string option" where
  "spec_problem_at path i =
     (let rest = drop i path;
          after = (if startswith rest ''problem-'' \<or> startswith rest ''problem_''
                   then drop 8 rest else drop 7 rest);
          ds = take 4 after
      in if startswith rest ''problem'' \<and> length ds = 4 \<and> (\<forall>c \<in> set ds. is_digit c)
         then Some ds else None)"

subsection \<open>TreeCrawler: \<open>scan_repository\<close>\<close>

text \<open>\<open>s.lower()\<close> on ASCII text, and the substring test \<open>sub in s\<close>.\<close>

definition lower_char :: "char \<Rightarrow> char" where
  "lower_char c =
     (case map_of (zip ''ABCDEFGHIJKLMNOPQRSTUVWXYZ'' ''abcdefghijklmnopqrstuvwxyz'') c of
        Some d \<Rightarrow> d
      | None \<Rightarrow> c)"

definition lower :: "string \<Rightarrow> string" where
  "lower s = map lower_char s"

fun substr_in :: "string \<Rightarrow> string \<Rightarrow> bool" where
  "substr_in sub [] = (sub = [])"
| "substr_in sub (c # cs) = (startswith (c # cs) sub \<or> substr_in sub cs)"

text \<open>
  The code host is outside the program. What it answers to a request is a \<open>reply\<close>:
  a status code with a body, or \<open>NoReply\<close> when the request raises. An entry of a
  directory listing has the four fields that the crawl reads; it carries the reply
  that the host gives when the crawl downloads it (\<open>download\<close>, for
  \<open>item['download_url']\<close>) and the reply it gives when the crawl lists it
  (\<open>listing\<close>, for \<open>item['path']\<close>). The host's tree is finite, so the crawl ends.
\<close>

datatype 'a reply = Reply nat 'a | NoReply

datatype item =
  Item (item_type: string) (item_name: string) (item_path: string)
       (download: "string reply") (listing: "item list reply")

text \<open>The dictionary that the crawl builds for a source file.\<close>

record problem =
  filename :: string
  path :: string
  code :: string
  language :: string
  problem_number :: string

text \<open>
  \<open>get_repo_contents\<close> and \<open>get_file_content\<close> applied to the reply of their request:
  only status 200 gives the body, every other status and every exception gives the
  empty list or the empty string.
\<close>

definition get_repo_contents :: "'a list reply \<Rightarrow> 'a list" where
  "get_repo_contents r =
     (case r of
        Reply status body \<Rightarrow>
          (if status = 200 then body
           else if status = 404 then []
           else if status = 403 then []
           else [])
      | NoReply \<Rightarrow> [])"

definition get_file_content :: "string reply \<Rightarrow> string" where
  "get_file_content r =
     (case r of
        Reply status text \<Rightarrow> (if status = 200 then text else '''')
      | NoReply \<Rightarrow> '''')"

definition extensions :: "string list" where
  "extensions = [''.py'', ''.java'', ''.cpp'', ''.c'', ''.js'', ''.ts'', ''.go'', ''.rs'',
                 ''.rb'', ''.php'', ''.swift'', ''.kt'', ''.cs'']"

definition is_code_file :: "string \<Rightarrow> bool" where
  "is_code_file name \<longleftrightarrow> (\<exists>ext \<in> set extensions. endswith name ext)"

definition ext_map :: "(string \<times> string) list" where
  "ext_map = [(''.py'', ''Python''), (''.java'', ''Java''), (''.cpp'', ''C++''), (''.c'', ''C''),
              (''.js'', ''JavaScript''), (''.ts'', ''TypeScript''), (''.go'', ''Go''),
              (''.rs'', ''Rust''), (''.rb'', ''Ruby''), (''.php'', ''PHP''), (''.swift'', ''Swift''),
              (''.kt'', ''Kotlin''), (''.cs'', ''C#'')]"

definition get_language :: "string \<Rightarrow> string" where
  "get_language name =
     (case find (\<lambda>(ext, lang). endswith name ext) ext_map of
        Some (ext, lang) \<Rightarrow> lang
      | None \<Rightarrow> ''Unknown'')"

text \<open>
  \<open>scan_repository\<close> with the loop over the listing as \<open>scan_items\<close>. The two lemmas
  bound the size of what a recursive call is given, for the termination proof.
\<close>

lemma size_contents: "size_list size (get_repo_contents r) \<le> size_reply (size_list size) r"
  by (cases r) (auto simp: get_repo_contents_def)

lemma size_listing: "size_reply (size_list size) (listing item) < size item"
  by (cases item) simp

function scan_repository :: "item list reply \<Rightarrow> problem list"
  and scan_items :: "item list \<Rightarrow> problem list" where
  "scan_repository r =
     (let contents = get_repo_contents r
      in if contents = [] then [] else scan_items contents)"
| "scan_items [] = []"
| "scan_items (item # rest) =
     (if item_type item = ''file'' \<and> is_code_file (item_name item) then
        (if substr_in ''test'' (lower (item_path item))
            \<or> substr_in ''helper'' (lower (item_path item))
         then scan_items rest
         else (let code = get_file_content (download item)
               in if code \<noteq> ''''
                  then \<lparr>filename = item_name item, path = item_path item, code = code,
                        language = get_language (item_name item),
                        problem_number =
                          extract_problem_number (item_name item) (item_path item)\<rparr>
                       # scan_items rest
                  else scan_items rest))
      else if item_type item = ''dir'' then scan_repository (listing item) @ scan_items rest
      else scan_items rest)"
  by pat_completeness auto

termination
proof (relation "measure (\<lambda>x. case x of Inl r \<Rightarrow> 2 * size_reply (size_list size) r + 1
                                      | Inr items \<Rightarrow> 2 * size_list size items)",
       goal_cases)
  case 1
  show ?case by simp
next
  case (2 r contents)
  then show ?case using size_contents [of r] by simp
next
  case (6 item rest)
  then show ?case using size_listing [of item] by simp
qed simp_all

text \<open>
  The file entries the crawl matches, in crawl order: type \<open>file\<close>, a recognised
  extension and neither \<open>test\<close> nor \<open>helper\<close> in the lower-cased path. It follows the
  specification's wording and is compared with the crawl's output.
\<close>

function matched_entries :: "item list reply \<Rightarrow> item list"
  and matched_items :: "item list \<Rightarrow> item list" where
  "matched_entries r = matched_items (get_repo_contents r)"
| "matched_items [] = []"
| "matched_items (item # rest) =
     (if item_type item = ''file'' \<and> is_code_file (item_name item) then
        (if substr_in ''test'' (lower (item_path item))
            \<or> substr_in ''helper'' (lower (item_path item))
         then matched_items rest
         else item # matched_items rest)
      else if item_type item = ''dir'' then matched_entries (listing item) @ matched_items rest
      else matched_items rest)"
  by pat_completeness auto

termination
proof (relation "measure (\<lambda>x. case x of Inl r \<Rightarrow> 2 * size_reply (size_list size) r + 1
                                      | Inr items \<Rightarrow> 2 * size_list size items)",
       goal_cases)
  case 1
  show ?case by simp
next
  case (2 r)
  then show ?case using size_contents [of r] by simp
next
  case (5 item rest)
  then show ?case using size_listing [of item] by simp
qed simp_all

definition example_tree :: "item list reply" where
  "example_tree = Reply 200
     [Item ''file'' ''1-two-sum.py'' ''1-two-sum.py'' (Reply 200 ''x = 1'') NoReply,
      Item ''file'' ''test_utils.py'' ''test_utils.py'' (Reply 200 ''x = 1'') NoReply,
      Item ''file'' ''7-reverse.py'' ''7-reverse.py'' (Reply 404 ''Not Found'') NoReply,
      Item ''dir'' ''15'' ''15'' NoReply
        (Reply 200 [Item ''file'' ''longest-substring.go'' ''15/longest-substring.go''
                      (Reply 200 ''package'') NoReply,
                    Item ''file'' ''Helper.go'' ''15/Helper.go'' (Reply 200 ''package'') NoReply])]"

declare scan_repository.simps [simp del] matched_entries.simps [simp del]

subsection \<open>BatchAnnotator: prompt, reply parsing and the batch loop\<close>

text \<open>
  The values of the annotated list are Python objects decoded from JSON (and the
  dictionaries the fallback branches build). A dictionary is an association list
  in insertion order with distinct keys. Numbers are integers: no function of the
  pipeline inspects a number.
\<close>

datatype pyval =
    PNone
  | PBool bool
  | PInt int
  | PStr string
  | PList "pyval list"
  | PDict "(string \<times> pyval) list"

definition dict_get :: "(string \<times> pyval) list \<Rightarrow> string \<Rightarrow> pyval option" where
  "dict_get d k = map_of d k"

text \<open>\<open>d[k] = v\<close>: an existing key keeps its place, a new key goes to the end.\<close>

fun dict_set :: "string \<Rightarrow> pyval \<Rightarrow> (string \<times> pyval) list \<Rightarrow> (string \<times> pyval) list" where
  "dict_set k v [] = [(k, v)]"
| "dict_set k v ((k', v') # d) = (if k = k' then (k, v) # d else (k', v') # dict_set k v d)"

text \<open>\<open>r[k]\<close> read from an element of the annotated list, when it is a dictionary with that key.\<close>

definition py_get :: "pyval \<Rightarrow> string \<Rightarrow> pyval option" where
  "py_get r k = (case r of PDict d \<Rightarrow> dict_get d k | _ \<Rightarrow> None)"

definition is_space :: "char \<Rightarrow> bool" where
  "is_space c \<longleftrightarrow>
     c \<in> set [CHR 0x09, CHR 0x0A, CHR 0x0B, CHR 0x0C, CHR 0x0D,
              CHR 0x1C, CHR 0x1D, CHR 0x1E, CHR 0x1F, CHR 0x20]"

definition strip :: "string \<Rightarrow> string" where
  "strip s = rev (dropWhile is_space (rev (dropWhile is_space s)))"

text \<open>\<open>s.find(c)\<close> and \<open>s.rfind(c)\<close>: the first and the last index of \<open>c\<close>, or \<open>-1\<close>.\<close>

definition py_find :: "char \<Rightarrow> string \<Rightarrow> int" where
  "py_find c s = (if c \<in> set s then int (length (takeWhile (\<lambda>x. x \<noteq> c) s)) else - 1)"

definition py_rfind :: "char \<Rightarrow> string \<Rightarrow> int" where
  "py_rfind c s =
     (if c \<in> set s then int (length s) - 1 - int (length (takeWhile (\<lambda>x. x \<noteq> c) (rev s)))
      else - 1)"

text \<open>\<open>s[a:b]\<close> for \<open>0 \<le> a\<close> and \<open>0 \<le> b\<close>; empty when \<open>b \<le> a\<close>.\<close>

definition py_slice :: "string \<Rightarrow> int \<Rightarrow> int \<Rightarrow> string" where
  "py_slice s a b = take (nat b - nat a) (drop (nat a) s)"

text \<open>\<open>str(n)\<close> for a non-negative integer.\<close>

fun str_nat :: "nat \<Rightarrow> string" where
  "str_nat n =
     (if n < 10 then [''0123456789'' ! n]
      else str_nat (n div 10) @ [''0123456789'' ! (n mod 10)])"

definition prompt_header :: string where
  \<open>prompt_header =
       ''Analyze these LeetCode solutions and return ONLY a valid JSON array with no markdown formatting.\<newline>''
       @ ''\<newline>''
       @ ''For each solution, provide this structure:\<newline>''
       @ ''{\<newline>''
       @ ''  "problem_number": "extract the number",\<newline>''
       @ ''  "problem_title": "proper LeetCode problem title",\<newline>''
       @ ''  "difficulty": "Easy/Medium/Hard",\<newline>''
       @ ''  "time_complexity": "O(n) format",\<newline>''
       @ ''  "space_complexity": "O(n) format",\<newline>''
       @ ''  "algorithms": ["algorithm1", "algorithm2"],\<newline>''
       @ ''  "data_structures": ["structure1"],\<newline>''
       @ ''  "explanation": "brief explanation under 150 chars",\<newline>''
       @ ''  "tags": ["tag1", "tag2"]\<newline>''
       @ ''}\<newline>''
       @ ''\<newline>''
       @ ''Return format: [{"problem_number":"1",...},{"problem_number":"2",...}]\<newline>''
       @ ''No backticks, no markdown, just pure JSON array.\<newline>''
       @ ''\<newline>''
       @ ''Solutions to analyze:\<newline>''\<close>

fun prompt_loop :: "nat \<Rightarrow> problem list \<Rightarrow> string \<Rightarrow> string" where
  "prompt_loop i [] prompt = prompt"
| "prompt_loop i (p # ps) prompt =
     prompt_loop (Suc i) ps
       (prompt
        @ (''\<newline>--- Solution '' @ str_nat i @ '' ---\<newline>'')
        @ (''File: '' @ filename p @ ''\<newline>'')
        @ (''Language: '' @ language p @ ''\<newline>'')
        @ (''Code:\<newline>'' @ take 1200 (code p) @ ''\<newline>''))"

definition create_gemini_prompt :: "problem list \<Rightarrow> string" where
  "create_gemini_prompt problems = prompt_loop 1 problems prompt_header"

text \<open>
  The loop of \<open>parse_gemini_response\<close> over \<open>enumerate(analyzed)\<close>. Item assignment on
  anything but a dictionary raises \<open>TypeError\<close>, which is the result \<open>None\<close> here.
\<close>

definition merge_entry :: "(string \<times> pyval) list \<Rightarrow> problem \<Rightarrow> (string \<times> pyval) list" where
  "merge_entry analysis p =
     (let a1 = dict_set ''code'' (PStr (code p)) analysis;
          a2 = dict_set ''path'' (PStr (path p)) a1
      in if dict_get a2 ''language'' = None
         then dict_set ''language'' (PStr (language p)) a2
         else a2)"

fun merge_loop :: "nat \<Rightarrow> pyval list \<Rightarrow> problem list \<Rightarrow> pyval list option" where
  "merge_loop i [] original_problems = Some []"
| "merge_loop i (analysis # rest) original_problems =
     (if i < length original_problems then
        (case analysis of
           PDict d \<Rightarrow>
             map_option ((#) (PDict (merge_entry d (original_problems ! i))))
                        (merge_loop (Suc i) rest original_problems)
         | _ \<Rightarrow> None)
      else map_option ((#) analysis) (merge_loop (Suc i) rest original_problems))"

text \<open>
  \<open>json.loads\<close> is the standard library's decoder and is a parameter \<open>loads\<close>:
  \<open>None\<close> when it raises. The text it is given starts with \<open>[\<close>, so what it
  decodes is a list.
\<close>

definition parse_gemini_response ::
  "(string \<Rightarrow> pyval list option) \<Rightarrow> string \<Rightarrow> problem list \<Rightarrow> pyval list" where
  "parse_gemini_response loads response0 original_problems =
     (let response = strip (replace ''```'' '''' (replace ''```json'' '''' response0));
          start = py_find (CHR ''['') response;
          end = py_rfind (CHR '']'') response + 1
      in if start = - 1 \<or> end = 0 then []
         else (let json_str = py_slice response start end
               in case loads json_str of
                    None \<Rightarrow> []
                  | Some analyzed \<Rightarrow>
                      (case merge_loop 0 analyzed original_problems of
                         None \<Rightarrow> []
                       | Some merged \<Rightarrow> merged)))"

text \<open>The dictionaries of the two fallback branches of \<open>analyze_with_gemini\<close>.\<close>

definition pending_record :: "problem \<Rightarrow> pyval" where
  "pending_record p = PDict
     [(''problem_number'', PStr (problem_number p)),
      (''problem_title'',
         PStr (strip (replace ''.'' '' '' (replace (lower (language p)) '''' (filename p))))),
      (''difficulty'', PStr ''Unknown''),
      (''language'', PStr (language p)),
      (''time_complexity'', PStr ''Unknown''),
      (''space_complexity'', PStr ''Unknown''),
      (''algorithms'', PList []),
      (''data_structures'', PList []),
      (''explanation'', PStr ''Analysis pending''),
      (''tags'', PList []),
      (''code'', PStr (code p)),
      (''path'', PStr (path p))]"

definition failed_record :: "problem \<Rightarrow> pyval" where
  "failed_record p = PDict
     [(''problem_number'', PStr (problem_number p)),
      (''problem_title'', PStr (filename p)),
      (''difficulty'', PStr ''Unknown''),
      (''language'', PStr (language p)),
      (''time_complexity'', PStr ''Unknown''),
      (''space_complexity'', PStr ''Unknown''),
      (''algorithms'', PList []),
      (''data_structures'', PList []),
      (''explanation'', PStr ''Analysis failed''),
      (''tags'', PList []),
      (''code'', PStr (code p)),
      (''path'', PStr (path p))]"

text \<open>
  What the annotation step does to the outside: a request to the generation service
  with a prompt, and a pause of some seconds.
\<close>

datatype effect = Generate string | Sleep nat

text \<open>
  \<open>call_gemini_api\<close> is the external generation call. Its outcome is given by
  \<open>gemini k prompt\<close> for the \<open>k\<close>-th call of a run (counted from 0): \<open>Inl\<close> when the
  call raises (a timeout, a transport error or a status other than 200), \<open>Inr\<close> the
  returned text otherwise. A call is one request with its prompt, which is returned
  beside the outcome. \<open>time_sleep\<close> is \<open>time.sleep\<close>.
\<close>

definition call_gemini_api ::
  "(nat \<Rightarrow> string \<Rightarrow> exn + string) \<Rightarrow> nat \<Rightarrow> string \<Rightarrow> (exn + string) \<times> effect list" where
  "call_gemini_api gemini k prompt = (gemini k prompt, [Generate prompt])"

definition time_sleep :: "nat \<Rightarrow> effect list" where
  "time_sleep seconds = [Sleep seconds]"

text \<open>
  \<open>analyze_batch\<close> is the \<open>try\<close> block of the loop body for one batch: the records
  of the batch and the requests it made.
\<close>

definition analyze_batch ::
  "(nat \<Rightarrow> string \<Rightarrow> exn + string) \<Rightarrow> (string \<Rightarrow> pyval list option) \<Rightarrow> nat \<Rightarrow> string
     \<Rightarrow> problem list \<Rightarrow> pyval list \<times> effect list" where
  "analyze_batch gemini loads k prompt batch =
     (case call_gemini_api gemini k prompt of
        (Inr response, sent) \<Rightarrow>
          (let analyzed = parse_gemini_response loads response batch
           in (if analyzed \<noteq> [] then analyzed else map pending_record batch, sent))
      | (Inl e, sent) \<Rightarrow> (map failed_record batch, sent))"

definition batch_size :: nat where
  "batch_size = 3"

function analyze_loop ::
  "(nat \<Rightarrow> string \<Rightarrow> exn + string) \<Rightarrow> (string \<Rightarrow> pyval list option) \<Rightarrow> problem list \<Rightarrow> nat
     \<Rightarrow> pyval list \<times> effect list \<Rightarrow> pyval list \<times> effect list" where
  "analyze_loop gemini loads problems i (all_analyzed, log) =
     (if i < length problems then
        (let batch = take batch_size (drop i problems);
             prompt = create_gemini_prompt batch;
             (analyzed, sent) = analyze_batch gemini loads (i div batch_size) prompt batch;
             pause = (if i + batch_size < length problems then time_sleep 2 else [])
         in analyze_loop gemini loads problems (i + batch_size)
              (all_analyzed @ analyzed, log @ sent @ pause))
      else (all_analyzed, log))"
  by pat_completeness auto
termination
  by (relation "measure (\<lambda>(gemini, loads, problems, i, acc). length problems - i)")
     (auto simp: batch_size_def)

declare analyze_loop.simps [simp del]

definition analyze_with_gemini ::
  "(nat \<Rightarrow> string \<Rightarrow> exn + string) \<Rightarrow> (string \<Rightarrow> pyval list option) \<Rightarrow> problem list
     \<Rightarrow> pyval list \<times> effect list" where
  "analyze_with_gemini gemini loads problems = analyze_loop gemini loads problems 0 ([], [])"

text \<open>
  The specification's wording, for comparison with the loop: the input is cut in order
  into \<open>ceil(n/3)\<close> batches of three files; the reply of a batch decodes to an array
  after the code fences are stripped and the text from the first \<open>[\<close> to the last
  \<open>]\<close> is taken; an output record carries a file when it has the file's path and code.
\<close>

definition num_batches :: "problem list \<Rightarrow> nat" where
  "num_batches problems = (length problems + 2) div 3"

definition batch_of :: "problem list \<Rightarrow> nat \<Rightarrow> problem list" where
  "batch_of problems k = take 3 (drop (3 * k) problems)"

definition batch_events :: "problem list \<Rightarrow> nat \<Rightarrow> effect list" where
  "batch_events problems k =
     Generate (create_gemini_prompt (batch_of problems k))
     # (if Suc k < num_batches problems then [Sleep 2] else [])"

definition batch_output ::
  "(nat \<Rightarrow> string \<Rightarrow> exn + string) \<Rightarrow> (string \<Rightarrow> pyval list option) \<Rightarrow> problem list \<Rightarrow> nat
     \<Rightarrow> pyval list" where
  "batch_output gemini loads problems k =
     fst (analyze_batch gemini loads k (create_gemini_prompt (batch_of problems k))
            (batch_of problems k))"

text \<open>The records that the reply of a call gives for a batch.\<close>

definition records_of_reply ::
  "(string \<Rightarrow> pyval list option) \<Rightarrow> exn + string \<Rightarrow> problem list \<Rightarrow> pyval list" where
  "records_of_reply loads reply batch =
     (case reply of
        Inl e \<Rightarrow> map failed_record batch
      | Inr response \<Rightarrow>
          (if parse_gemini_response loads response batch \<noteq> []
           then parse_gemini_response loads response batch
           else map pending_record batch))"

definition reply_array :: "(string \<Rightarrow> pyval list option) \<Rightarrow> string \<Rightarrow> pyval list option" where
  "reply_array loads response =
     (let cleaned = strip (replace ''```'' '''' (replace ''```json'' '''' response))
      in if CHR ''['' \<notin> set cleaned \<or> CHR '']'' \<notin> set cleaned then None
         else loads (py_slice cleaned (py_find (CHR ''['') cleaned)
                                      (py_rfind (CHR '']'') cleaned + 1)))"

definition carries :: "problem \<Rightarrow> pyval \<Rightarrow> bool" where
  "carries p r \<longleftrightarrow>
     py_get r ''path'' = Some (PStr (path p)) \<and> py_get r ''code'' = Some (PStr (code p))"

definition default_record :: "string \<Rightarrow> problem \<Rightarrow> pyval \<Rightarrow> bool" where
  "default_record expl p r \<longleftrightarrow>
     py_get r ''difficulty'' = Some (PStr ''Unknown'')
     \<and> py_get r ''time_complexity'' = Some (PStr ''Unknown'')
     \<and> py_get r ''space_complexity'' = Some (PStr ''Unknown'')
     \<and> py_get r ''algorithms'' = Some (PList [])
     \<and> py_get r ''data_structures'' = Some (PList [])
     \<and> py_get r ''tags'' = Some (PList [])
     \<and> py_get r ''explanation'' = Some (PStr expl)
     \<and> carries p r"

text \<open>Example inputs: four classified files, a reply with two entries and its decoding.\<close>

definition example_files :: "problem list" where
  "example_files =
     [\<lparr>filename = ''1-two-sum.py'', path = ''1-two-sum.py'', code = ''x = 1'',
        language = ''Python'', problem_number = ''1''\<rparr>,
      \<lparr>filename = ''2-add.py'', path = ''src/2-add.py'', code = ''y = 2'',
        language = ''Python'', problem_number = ''2''\<rparr>,
      \<lparr>filename = ''3-longest.go'', path = ''3-longest.go'', code = ''package a'',
        language = ''Go'', problem_number = ''3''\<rparr>,
      \<lparr>filename = ''4-median.go'', path = ''go/4-median.go'', code = ''package b'',
        language = ''Go'', problem_number = ''4''\<rparr>]"

definition example_reply :: string where
  \<open>example_reply = ''```json\<newline>[{"difficulty": "Easy"}, {"difficulty": "Hard"}]\<newline>```''\<close>

definition example_loads :: "string \<Rightarrow> pyval list option" where
  \<open>example_loads s =
     (if s = ''[{"difficulty": "Easy"}, {"difficulty": "Hard"}]''
      then Some [PDict [(''difficulty'', PStr ''Easy'')], PDict [(''difficulty'', PStr ''Hard'')]]
      else None)\<close>

text \<open>The first call returns the two-entry reply, every later call raises.\<close>

definition short_reply_gemini :: "nat \<Rightarrow> string \<Rightarrow> exn + string" where
  "short_reply_gemini k prompt = (if k = 0 then Inr example_reply else Inl GeminiError)"

text \<open>The first call returns text without an array, every later call raises.\<close>

definition failing_gemini :: "nat \<Rightarrow> string \<Rightarrow> exn + string" where
  "failing_gemini k prompt = (if k = 0 then Inr ''Sorry, I cannot help.'' else Inl GeminiError)"

subsection \<open>Upserter: \<open>store_in_database\<close>\<close>

text \<open>
  The table \<open>leetcode_solutions\<close> of \<open>setup_database\<close>. A column value is \<open>None\<close>
  for SQL \<open>NULL\<close>. The surrogate \<open>id\<close> is left out: no function of the pipeline
  reads it. \<open>solution_values\<close> are the thirteen values an \<open>INSERT\<close> supplies;
  \<open>created_at\<close> is filled by its default, the time of the transaction.
\<close>

record solution_values =
  col_problem_number :: "string option"
  col_problem_title :: "string option"
  col_difficulty :: "string option"
  col_language :: "string option"
  col_time_complexity :: "string option"
  col_space_complexity :: "string option"
  col_algorithms :: "string list option"
  col_data_structures :: "string list option"
  col_explanation :: "string option"
  col_tags :: "string list option"
  col_code :: "string option"
  col_file_path :: "string option"
  col_user_email :: "string option"

record solution_row = solution_values +
  col_created_at :: nat

text \<open>
  \<open>UNIQUE(problem_number, language, file_path, user_email)\<close>: SQL equality of the four
  key columns. A \<open>NULL\<close> is equal to nothing, itself included, so a row with a \<open>NULL\<close>
  in its key conflicts with no row.
\<close>

definition sql_eq :: "'a option \<Rightarrow> 'a option \<Rightarrow> bool" where
  "sql_eq a b \<longleftrightarrow> a \<noteq> None \<and> a = b"

definition conflicts :: "'a solution_values_scheme \<Rightarrow> 'b solution_values_scheme \<Rightarrow> bool" where
  "conflicts v r \<longleftrightarrow>
     sql_eq (col_problem_number v) (col_problem_number r)
     \<and> sql_eq (col_language v) (col_language r)
     \<and> sql_eq (col_file_path v) (col_file_path r)
     \<and> sql_eq (col_user_email v) (col_user_email r)"

text \<open>The \<open>DO UPDATE SET ... = EXCLUDED. ...\<close> list of the statement.\<close>

definition do_update :: "solution_values \<Rightarrow> solution_row \<Rightarrow> solution_row" where
  "do_update v r =
     r\<lparr>col_problem_title := col_problem_title v,
       col_difficulty := col_difficulty v,
       col_time_complexity := col_time_complexity v,
       col_space_complexity := col_space_complexity v,
       col_algorithms := col_algorithms v,
       col_data_structures := col_data_structures v,
       col_explanation := col_explanation v,
       col_tags := col_tags v,
       col_code := col_code v\<rparr>"

definition insert_row :: "nat \<Rightarrow> solution_values \<Rightarrow> solution_row" where
  "insert_row now v =
     \<lparr>col_problem_number = col_problem_number v,
      col_problem_title = col_problem_title v,
      col_difficulty = col_difficulty v,
      col_language = col_language v,
      col_time_complexity = col_time_complexity v,
      col_space_complexity = col_space_complexity v,
      col_algorithms = col_algorithms v,
      col_data_structures = col_data_structures v,
      col_explanation = col_explanation v,
      col_tags = col_tags v,
      col_code = col_code v,
      col_file_path = col_file_path v,
      col_user_email = col_user_email v,
      col_created_at = now\<rparr>"

text \<open>
  \<open>INSERT ... ON CONFLICT (...) DO UPDATE ... RETURNING (xmax = 0) AS inserted\<close> on
  the rows of the table: the conflicting row is updated in place and the statement
  returns \<open>False\<close>; without a conflict the new row is added and it returns \<open>True\<close>.
\<close>

fun pg_upsert :: "nat \<Rightarrow> solution_values \<Rightarrow> solution_row list \<Rightarrow> bool \<times> solution_row list" where
  "pg_upsert now v [] = (True, [insert_row now v])"
| "pg_upsert now v (r # rows) =
     (if conflicts v r then (False, do_update v r # rows)
      else (let (was_inserted, rows') = pg_upsert now v rows in (was_inserted, r # rows')))"

text \<open>\<open>sol.get(key, default)\<close>, and the tuple of the thirteen parameters of the statement.
  On anything but a dictionary \<open>sol.get\<close> raises \<open>AttributeError\<close>: the result \<open>None\<close>.\<close>

definition sol_get :: "(string \<times> pyval) list \<Rightarrow> string \<Rightarrow> pyval \<Rightarrow> pyval" where
  "sol_get d k dflt = (case dict_get d k of None \<Rightarrow> dflt | Some v \<Rightarrow> v)"

definition bind_params :: "pyval \<Rightarrow> string option \<Rightarrow> pyval list option" where
  "bind_params sol user_email =
     (case sol of
        PDict d \<Rightarrow>
          Some [sol_get d ''problem_number'' (PStr ''Unknown''),
                sol_get d ''problem_title'' (PStr ''Unknown''),
                sol_get d ''difficulty'' (PStr ''Unknown''),
                sol_get d ''language'' (PStr ''Unknown''),
                sol_get d ''time_complexity'' (PStr ''Unknown''),
                sol_get d ''space_complexity'' (PStr ''Unknown''),
                sol_get d ''algorithms'' (PList []),
                sol_get d ''data_structures'' (PList []),
                sol_get d ''explanation'' (PStr ''''),
                sol_get d ''tags'' (PList []),
                sol_get d ''code'' (PStr ''''),
                sol_get d ''path'' (PStr ''''),
                (case user_email of None \<Rightarrow> PNone | Some e \<Rightarrow> PStr e)]
      | _ \<Rightarrow> None)"

text \<open>
  What becomes of a statement with its parameters. The driver adapts the Python
  values before it sends anything and raises on a value it cannot adapt
  (\<open>ClientError\<close>: the transaction is untouched). The server coerces the values to
  the column types and raises on a value that does not fit (\<open>ServerError\<close>: the
  transaction is failed). Otherwise the statement runs with the column values.
\<close>

datatype 'a adapted = ClientError | ServerError | Accepted 'a

text \<open>
  The loop of \<open>store_in_database\<close> inside one transaction. \<open>pg_adapt\<close> is the
  adaptation by the driver and the coercion by the server, a parameter of the model.
  The transaction is \<open>Some rows\<close>, or \<open>None\<close> once a statement has failed on the
  server: the server then refuses every later statement of the transaction, which the
  loop skips like any other error.
\<close>

fun store_loop ::
  "(pyval list \<Rightarrow> solution_values adapted) \<Rightarrow> nat \<Rightarrow> string option \<Rightarrow> pyval list
     \<Rightarrow> solution_row list option \<times> nat \<times> nat \<Rightarrow> solution_row list option \<times> nat \<times> nat" where
  "store_loop pg_adapt now user_email [] st = st"
| "store_loop pg_adapt now user_email (sol # rest) (tx, inserted, updated) =
     (case bind_params sol user_email of
        None \<Rightarrow> store_loop pg_adapt now user_email rest (tx, inserted, updated)
      | Some params \<Rightarrow>
          (case pg_adapt params of
             ClientError \<Rightarrow> store_loop pg_adapt now user_email rest (tx, inserted, updated)
           | ServerError \<Rightarrow> store_loop pg_adapt now user_email rest (None, inserted, updated)
           | Accepted v \<Rightarrow>
               (case tx of
                  None \<Rightarrow> store_loop pg_adapt now user_email rest (None, inserted, updated)
                | Some rows \<Rightarrow>
                    (let (was_inserted, rows') = pg_upsert now v rows
                     in if was_inserted
                        then store_loop pg_adapt now user_email rest (Some rows', inserted + 1, updated)
                        else store_loop pg_adapt now user_email rest (Some rows', inserted, updated + 1)))))"

text \<open>
  \<open>store_in_database\<close>: \<open>connect\<close> tells whether \<open>psycopg2.connect\<close> succeeds; when it
  raises, the function prints and raises again. \<open>commit\<close> on a failed transaction
  rolls it back, so the table is as before the call. The result is the table after
  the call with the two counters that the function prints.
\<close>

definition store_in_database ::
  "bool \<Rightarrow> (pyval list \<Rightarrow> solution_values adapted) \<Rightarrow> nat \<Rightarrow> pyval list \<Rightarrow> string option
     \<Rightarrow> solution_row list \<Rightarrow> exn + (solution_row list \<times> nat \<times> nat)" where
  "store_in_database connect pg_adapt now solutions user_email db =
     (if \<not> connect then Inl DatabaseError
      else (case store_loop pg_adapt now user_email solutions (Some db, 0, 0) of
              (tx, inserted, updated) \<Rightarrow>
                Inr (case tx of None \<Rightarrow> db | Some rows \<Rightarrow> rows, inserted, updated)))"

text \<open>
  An adaptation for the examples. The driver cannot adapt a dictionary, also inside a
  list. On the server \<open>None\<close> is \<open>NULL\<close>; a string fits \<open>VARCHAR(n)\<close> when it has at
  most \<open>n\<close> characters or only spaces beyond them, which are cut off; an integer is
  stored in a character column as its decimal text; a list of strings fits \<open>TEXT[]\<close>.
  Every other value is answered with \<open>ServerError\<close>, which is stricter than the
  server on some of them (a Boolean or an empty list in a character column, a string
  in an array column).
\<close>

fun adaptable :: "pyval \<Rightarrow> bool" where
  "adaptable (PDict d) = False"
| "adaptable (PList vs) = (\<forall>v \<in> set vs. adaptable v)"
| "adaptable v = True"

definition str_int :: "int \<Rightarrow> string" where
  "str_int i = (if i < 0 then CHR ''-'' # str_nat (nat (- i)) else str_nat (nat i))"

definition varchar_text :: "nat \<Rightarrow> string \<Rightarrow> string option option" where
  "varchar_text n s =
     (if length s \<le> n then Some (Some s)
      else if \<forall>c \<in> set (drop n s). c = CHR '' '' then Some (Some (take n s))
      else None)"

definition varchar :: "nat \<Rightarrow> pyval \<Rightarrow> string option option" where
  "varchar n v =
     (case v of
        PNone \<Rightarrow> Some None
      | PStr s \<Rightarrow> varchar_text n s
      | PInt i \<Rightarrow> varchar_text n (str_int i)
      | _ \<Rightarrow> None)"

definition text_col :: "pyval \<Rightarrow> string option option" where
  "text_col v =
     (case v of
        PNone \<Rightarrow> Some None
      | PStr s \<Rightarrow> Some (Some s)
      | PInt i \<Rightarrow> Some (Some (str_int i))
      | _ \<Rightarrow> None)"

fun strings_of :: "pyval list \<Rightarrow> string list option" where
  "strings_of [] = Some []"
| "strings_of (PStr s # vs) = map_option ((#) s) (strings_of vs)"
| "strings_of (_ # vs) = None"

definition text_array :: "pyval \<Rightarrow> string list option option" where
  "text_array v =
     (case v of PNone \<Rightarrow> Some None | PList vs \<Rightarrow> map_option Some (strings_of vs) | _ \<Rightarrow> None)"

definition strict_adapt :: "pyval list \<Rightarrow> solution_values adapted" where
  "strict_adapt params =
     (if \<exists>v \<in> set params. \<not> adaptable v then ClientError
      else
        (case params of
           [pn, title, diff, lang, tc, sc, algs, dss, expl, tgs, cd, fp, email] \<Rightarrow>
             (case (varchar 10 pn, varchar 255 title, varchar 20 diff, varchar 50 lang,
                    varchar 50 tc, varchar 50 sc, text_array algs, text_array dss,
                    text_col expl, text_array tgs, text_col cd, varchar 500 fp,
                    varchar 255 email) of
                (Some a, Some b, Some c, Some d, Some e, Some f, Some g, Some h, Some i, Some j,
                 Some k, Some l, Some m) \<Rightarrow>
                  Accepted
                    \<lparr>col_problem_number = a, col_problem_title = b, col_difficulty = c,
                     col_language = d, col_time_complexity = e, col_space_complexity = f,
                     col_algorithms = g, col_data_structures = h, col_explanation = i,
                     col_tags = j, col_code = k, col_file_path = l, col_user_email = m\<rparr>
              | _ \<Rightarrow> ServerError)
         | _ \<Rightarrow> ServerError))"







subsection \<open>PipelineOrchestrator: \<open>process_repository\<close>\<close>

text \<open>
  What the run meets outside the program: whether \<open>test_connection\<close> passes, the
  replies of the code host for a parsed reference, the generation call and the JSON
  decoder, whether the database connections of \<open>setup_database\<close> and of
  \<open>store_in_database\<close> succeed, the adaptation of parameters, the time and the table.
\<close>

record env =
  env_internet_ok :: bool
  env_host :: "string \<Rightarrow> string \<Rightarrow> string \<Rightarrow> item list reply"
  env_gemini :: "nat \<Rightarrow> string \<Rightarrow> exn + string"
  env_loads :: "string \<Rightarrow> pyval list option"
  env_db_setup_ok :: bool
  env_db_connect_ok :: bool
  env_pg_adapt :: "pyval list \<Rightarrow> solution_values adapted"
  env_now :: nat
  env_table :: "solution_row list"

text \<open>\<open>setup_database\<close> creates the tables if they are missing; it raises when the
  connection fails.\<close>

definition setup_database :: "bool \<Rightarrow> exn + unit" where
  "setup_database connect = (if connect then Inr () else Inl DatabaseError)"

text \<open>
  The ways \<open>process_repository\<close> ends: one per \<open>return\<close> of the function, and
  \<open>ProcessComplete\<close> with the printed summary (the number of annotated records and the
  set of their languages).
\<close>

datatype outcome =
    ConnectionTestFailed
  | GitHubExtractionError exn
  | NoSolutionsFound
  | DatabaseSetupError
  | DatabaseStorageError
  | ProcessComplete nat "pyval set"

text \<open>
  \<open>set(s.get('language', 'Unknown') for s in analyzed)\<close> of the summary. It is outside
  every \<open>try\<close>: \<open>s.get\<close> raises \<open>AttributeError\<close> on an element that is no
  dictionary, and \<open>set\<close> raises \<open>TypeError\<close> on a list or a dictionary. A Python set
  holds its elements up to Python's equality, under which \<open>True\<close> is \<open>1\<close> and \<open>False\<close>
  is \<open>0\<close>: \<open>py_key\<close> enters a Boolean as that integer.
\<close>

definition py_key :: "pyval \<Rightarrow> pyval" where
  "py_key v = (case v of PBool b \<Rightarrow> PInt (if b then 1 else 0) | _ \<Rightarrow> v)"

fun summary_languages :: "pyval list \<Rightarrow> exn + pyval set" where
  "summary_languages [] = Inr {}"
| "summary_languages (s # rest) =
     (case s of
        PDict d \<Rightarrow>
          (case sol_get d ''language'' (PStr ''Unknown'') of
             PList xs \<Rightarrow> Inl TypeError
           | PDict x \<Rightarrow> Inl TypeError
           | lang \<Rightarrow>
               (case summary_languages rest of
                  Inl e \<Rightarrow> Inl e
                | Inr langs \<Rightarrow> Inr (insert (py_key lang) langs)))
      | _ \<Rightarrow> Inl AttributeError)"

text \<open>
  \<open>process_repository\<close>. The \<open>except\<close> branch of the annotation stage is not
  reachable, since \<open>analyze_with_gemini\<close> catches every exception of a batch. The
  registration, the welcome email and the recommendation catch every exception and
  do not change how the run ends. \<open>Inl\<close> is an exception that leaves the function.
\<close>

definition process_repository :: "env \<Rightarrow> string \<Rightarrow> string option \<Rightarrow> exn + outcome" where
  "process_repository env github_url user_email =
     (if \<not> env_internet_ok env then Inr ConnectionTestFailed
      else
        (case parse_github_url github_url of
           Inl e \<Rightarrow> Inr (GitHubExtractionError e)
         | Inr (owner, repo, start_path) \<Rightarrow>
             (let problems = scan_repository (env_host env owner repo start_path)
              in if problems = [] then Inr NoSolutionsFound
                 else
                   (let analyzed = fst (analyze_with_gemini (env_gemini env) (env_loads env) problems)
                    in case setup_database (env_db_setup_ok env) of
                         Inl e \<Rightarrow> Inr DatabaseSetupError
                       | Inr u \<Rightarrow>
                           (case store_in_database (env_db_connect_ok env) (env_pg_adapt env)
                                   (env_now env) analyzed user_email (env_table env) of
                              Inl e \<Rightarrow> Inr DatabaseStorageError
                            | Inr stored \<Rightarrow>
                                (case summary_languages analyzed of
                                   Inl e \<Rightarrow> Inl e
                                 | Inr langs \<Rightarrow> Inr (ProcessComplete (length analyzed) langs)))))))"

text \<open>An example run: the example tree for every reference, a generation call that
  never gives an array, and a database that is reached.\<close>

definition example_env :: env where
  "example_env =
     \<lparr>env_internet_ok = True,
      env_host = (\<lambda>owner repo start_path. example_tree),
      env_gemini = failing_gemini,
      env_loads = example_loads,
      env_db_setup_ok = True,
      env_db_connect_ok = True,
      env_pg_adapt = strict_adapt,
      env_now = 1,
      env_table = []\<rparr>"

text \<open>
  The specification's wording, for comparison: an annotated record can be summarised
  when it is a dictionary whose language is neither a list nor a dictionary, and its
  language is then the value of its \<open>language\<close> key, or \<open>Unknown\<close>.
\<close>

definition summarizable :: "pyval \<Rightarrow> bool" where
  "summarizable r \<longleftrightarrow>
     (case r of
        PDict d \<Rightarrow>
          (case sol_get d ''language'' (PStr ''Unknown'') of
             PList xs \<Rightarrow> False
           | PDict x \<Rightarrow> False
           | _ \<Rightarrow> True)
      | _ \<Rightarrow> False)"

definition record_language :: "pyval \<Rightarrow> pyval" where
  "record_language r =
     (case r of PDict d \<Rightarrow> py_key (sol_get d ''language'' (PStr ''Unknown'')) | _ \<Rightarrow> PNone)"

text \<open>
  Example runs: a host whose tree holds the four example files, a generation call
  that answers the first batch with the two-entry reply and raises on the second,
  and a store that rejects every record.
\<close>

definition four_file_tree :: "item list reply" where
  "four_file_tree = Reply 200
     [Item ''file'' ''1-two-sum.py'' ''1-two-sum.py'' (Reply 200 ''x = 1'') NoReply,
      Item ''dir'' ''src'' ''src'' NoReply
        (Reply 200 [Item ''file'' ''2-add.py'' ''src/2-add.py'' (Reply 200 ''y = 2'') NoReply]),
      Item ''file'' ''3-longest.go'' ''3-longest.go'' (Reply 200 ''package a'') NoReply,
      Item ''dir'' ''go'' ''go'' NoReply
        (Reply 200 [Item ''file'' ''4-median.go'' ''go/4-median.go''
                      (Reply 200 ''package b'') NoReply])]"

definition mixed_env :: env where
  "mixed_env =
     \<lparr>env_internet_ok = True,
      env_host = (\<lambda>owner repo start_path. four_file_tree),
      env_gemini = short_reply_gemini,
      env_loads = example_loads,
      env_db_setup_ok = True,
      env_db_connect_ok = True,
      env_pg_adapt = (\<lambda>params. ServerError),
      env_now = 1,
      env_table = []\<rparr>"

section \<open>Properties\<close>

lemma re_search_Some:
  "re_search m s = Some r \<longleftrightarrow>
     (\<exists>i \<le> length s. m (drop i s) = Some r \<and> (\<forall>j < i. m (drop j s) = None))"
proof (induction s)
  case Nil
  then show ?case by auto
next
  case (Cons c cs)
  show ?case
  proof (cases "m (c # cs)")
    case (Some a)
    have "(\<exists>i \<le> length (c # cs). m (drop i (c # cs)) = Some r \<and> (\<forall>j < i. m (drop j (c # cs)) = None))
          \<longleftrightarrow> a = r"
    proof
      assume "\<exists>i \<le> length (c # cs). m (drop i (c # cs)) = Some r \<and> (\<forall>j < i. m (drop j (c # cs)) = None)"
      then obtain i where i: "m (drop i (c # cs)) = Some r" "\<forall>j < i. m (drop j (c # cs)) = None"
        by blast
      have "i = 0"
      proof (rule ccontr)
        assume "i \<noteq> 0"
        then have "m (drop 0 (c # cs)) = None" using i(2) by blast
        then show False using Some by simp
      qed
      then show "a = r" using i(1) Some by simp
    next
      assume "a = r"
      then have "m (drop 0 (c # cs)) = Some r \<and> (\<forall>j < (0::nat). m (drop j (c # cs)) = None)"
        using Some by simp
      then show "\<exists>i \<le> length (c # cs). m (drop i (c # cs)) = Some r \<and> (\<forall>j < i. m (drop j (c # cs)) = None)"
        by blast
    qed
    then show ?thesis using Some by simp
  next
    case None
    have "(\<exists>i \<le> length (c # cs). m (drop i (c # cs)) = Some r \<and> (\<forall>j < i. m (drop j (c # cs)) = None))
          \<longleftrightarrow> (\<exists>i \<le> length cs. m (drop i cs) = Some r \<and> (\<forall>j < i. m (drop j cs) = None))"
      (is "?L \<longleftrightarrow> ?R")
    proof
      assume ?L
      then obtain i where i: "i \<le> length (c # cs)" "m (drop i (c # cs)) = Some r"
        "\<forall>j < i. m (drop j (c # cs)) = None" by blast
      from i(2) None have "i \<noteq> 0" by (cases i) auto
      then obtain k where k: "i = Suc k" by (cases i) auto
      have "\<forall>j < k. m (drop j cs) = None"
      proof (intro allI impI)
        fix j assume "j < k"
        then have "Suc j < i" using k by simp
        then have "m (drop (Suc j) (c # cs)) = None" using i(3) by blast
        then show "m (drop j cs) = None" by simp
      qed
      then show ?R using i(1,2) k by auto
    next
      assume ?R
      then obtain i where i: "i \<le> length cs" "m (drop i cs) = Some r"
        "\<forall>j < i. m (drop j cs) = None" by blast
      have "\<forall>j < Suc i. m (drop j (c # cs)) = None"
      proof (intro allI impI)
        fix j assume "j < Suc i"
        then show "m (drop j (c # cs)) = None"
          using None i(3) by (cases j) auto
      qed
      moreover have "Suc i \<le> length (c # cs)" "m (drop (Suc i) (c # cs)) = Some r"
        using i by auto
      ultimately show ?L by blast
    qed
    then show ?thesis using None Cons.IH by simp
  qed
qed

lemma re_search_None:
  "re_search m s = None \<longleftrightarrow> (\<forall>i \<le> length s. m (drop i s) = None)"
proof (induction s)
  case Nil
  then show ?case by simp
next
  case (Cons c cs)
  have "(\<forall>i \<le> length (c # cs). m (drop i (c # cs)) = None)
        \<longleftrightarrow> m (c # cs) = None \<and> (\<forall>i \<le> length cs. m (drop i cs) = None)"
    (is "?L \<longleftrightarrow> ?R")
  proof
    assume L: ?L
    then have "m (drop 0 (c # cs)) = None" by blast
    moreover have "\<forall>i \<le> length cs. m (drop i cs) = None"
    proof (intro allI impI)
      fix i assume "i \<le> length cs"
      then have "m (drop (Suc i) (c # cs)) = None" using L by auto
      then show "m (drop i cs) = None" by simp
    qed
    ultimately show ?R by simp
  next
    assume R: ?R
    show ?L
    proof (intro allI impI)
      fix i assume "i \<le> length (c # cs)"
      then show "m (drop i (c # cs)) = None" using R by (cases i) auto
    qed
  qed
  then show ?case using Cons.IH by (auto split: option.splits)
qed

lemma startswith_snoc:
  "startswith s (p @ [c]) \<longleftrightarrow>
     startswith s p \<and> drop (length p) s \<noteq> [] \<and> hd (drop (length p) s) = c"
proof (induction p arbitrary: s)
  case Nil
  then show ?case by (cases s) (auto simp: startswith_def)
next
  case (Cons a p)
  show ?case
  proof (cases s)
    case Nil
    then show ?thesis by (simp add: startswith_def)
  next
    case (Cons b t)
    then show ?thesis using Cons.IH [of t] by (auto simp: startswith_def)
  qed
qed

lemma match_four_nondigit:
  "r \<noteq> [] \<Longrightarrow> \<not> is_digit (hd r) \<Longrightarrow> match_four r = None"
  by (cases r) (auto simp: match_four_def)

lemma match_problem_spec: "match_problem (drop i pth) = spec_problem_at pth i"
proof -
  define s where "s = drop i pth"
  define r where "r = drop 7 s"
  have "drop 8 s = drop (Suc 7) s" by simp
  also have "\<dots> = drop 7 (tl s)" by (rule drop_Suc)
  also have "\<dots> = tl r" by (simp add: r_def tl_drop)
  finally have d8: "drop 8 s = tl r" .
  have four: "spec_problem_at pth i =
     (if startswith s ''problem'' then
        match_four (if startswith s ''problem-'' \<or> startswith s ''problem_'' then drop 8 s else drop 7 s)
      else None)"
    unfolding spec_problem_at_def match_four_def Let_def s_def by auto
  show ?thesis
  proof (cases "startswith s ''problem''")
    case False
    then show ?thesis by (simp add: match_problem_def spec_problem_at_def Let_def s_def)
  next
    case True
    have m: "startswith s ''problem-'' \<longleftrightarrow> r \<noteq> [] \<and> hd r = CHR ''-''"
      using startswith_snoc [of s "''problem''" "CHR ''-''"] True by (simp add: r_def eval_nat_numeral)
    have u: "startswith s ''problem_'' \<longleftrightarrow> r \<noteq> [] \<and> hd r = CHR ''_''"
      using startswith_snoc [of s "''problem''" "CHR ''_''"] True by (simp add: r_def eval_nat_numeral)
    show ?thesis
    proof (cases "r \<noteq> [] \<and> hd r \<in> set ''_-''")
      case sep: True
      then have nd: "\<not> is_digit (hd r)" by (auto simp: is_digit_def)
      have "match_four r = None" using sep nd match_four_nondigit by blast
      then have "match_problem s = match_four (tl r)"
        using True sep by (simp add: match_problem_def r_def Let_def split: option.splits)
      moreover have "spec_problem_at pth i = match_four (tl r)"
        using four True sep m u d8 by auto
      ultimately show ?thesis by (simp add: s_def)
    next
      case nosep: False
      then have "match_problem s = match_four r"
        using True by (auto simp: match_problem_def r_def Let_def split: option.splits)
      moreover have "spec_problem_at pth i = match_four r"
        using four True nosep m u by (auto simp: r_def)
      ultimately show ?thesis by (simp add: s_def)
    qed
  qed
qed

lemma match_digits_Some:
  "match_digits s \<noteq> None \<longleftrightarrow> s \<noteq> [] \<and> is_digit (hd s)"
  by (cases s) (auto simp: match_digits_def)

lemma search_digits_None:
  "re_search match_digits s = None \<longleftrightarrow> (\<forall>c \<in> set s. \<not> is_digit c)"
  by (induction s) (auto simp: match_digits_def split: option.splits)

lemma search_digits_Some:
  "\<exists>c \<in> set s. is_digit c \<Longrightarrow>
   re_search match_digits s = Some (take 4 (takeWhile is_digit (dropWhile (\<lambda>c. \<not> is_digit c) s)))"
  by (induction s) (auto simp: match_digits_def split: option.splits)

text \<open>
  Claim C8. For every filename and path, \<open>extract_problem_number\<close> returns the first
  run of one to four digits of the filename when the filename has a digit; when it has
  none, it returns the four digits of the leftmost place in the path where
  \<open>problem\<close>, an optional \<open>-\<close> or \<open>_\<close> and four digits stand; and when the path has
  no such place it returns \<open>Unknown\<close>.
\<close>

theorem extract_problem_number_spec:
  "((\<exists>c \<in> set fname. is_digit c) \<longrightarrow>
      extract_problem_number fname pth =
        take 4 (takeWhile is_digit (dropWhile (\<lambda>c. \<not> is_digit c) fname)))
   \<and> ((\<forall>c \<in> set fname. \<not> is_digit c) \<and> i \<le> length pth \<and> spec_problem_at pth i = Some ds
        \<and> (\<forall>j < i. spec_problem_at pth j = None) \<longrightarrow>
      extract_problem_number fname pth = ds)
   \<and> ((\<forall>c \<in> set fname. \<not> is_digit c) \<and> (\<forall>j \<le> length pth. spec_problem_at pth j = None) \<longrightarrow>
      extract_problem_number fname pth = ''Unknown'')"
proof (intro conjI impI)
  assume "\<exists>c \<in> set fname. is_digit c"
  then show "extract_problem_number fname pth =
        take 4 (takeWhile is_digit (dropWhile (\<lambda>c. \<not> is_digit c) fname))"
    by (simp add: extract_problem_number_def search_digits_Some)
next
  assume a: "(\<forall>c \<in> set fname. \<not> is_digit c) \<and> i \<le> length pth \<and> spec_problem_at pth i = Some ds
        \<and> (\<forall>j < i. spec_problem_at pth j = None)"
  then have "re_search match_digits fname = None" by (simp add: search_digits_None)
  moreover have "re_search match_problem pth = Some ds"
    using a by (auto simp: re_search_Some match_problem_spec)
  ultimately show "extract_problem_number fname pth = ds"
    by (simp add: extract_problem_number_def)
next
  assume a: "(\<forall>c \<in> set fname. \<not> is_digit c) \<and> (\<forall>j \<le> length pth. spec_problem_at pth j = None)"
  then have "re_search match_digits fname = None" by (simp add: search_digits_None)
  moreover have "re_search match_problem pth = None"
    using a by (simp add: re_search_None match_problem_spec)
  ultimately show "extract_problem_number fname pth = ''Unknown''"
    by (simp add: extract_problem_number_def)
qed

theorem extract_problem_number_spec_witness:
  "extract_problem_number ''15-three-sum.py'' ''15-three-sum.py'' = ''15''
   \<and> extract_problem_number ''two-sum.py'' ''src/problem_0001/two-sum.py'' = ''0001''
   \<and> extract_problem_number ''two-sum.py'' ''src/two-sum.py'' = ''Unknown''"
proof (intro conjI)
  show "extract_problem_number ''15-three-sum.py'' ''15-three-sum.py'' = ''15''"
    using extract_problem_number_spec [of "''15-three-sum.py''" "''15-three-sum.py''" 0 "''''"]
    by (simp add: is_digit_def)
  have "\<forall>j \<in> set [0..<4]. spec_problem_at ''src/problem_0001/two-sum.py'' j = None"
    by code_simp
  then have "\<forall>j < (4::nat). spec_problem_at ''src/problem_0001/two-sum.py'' j = None"
    by simp
  then show "extract_problem_number ''two-sum.py'' ''src/problem_0001/two-sum.py'' = ''0001''"
    using extract_problem_number_spec [of "''two-sum.py''" "''src/problem_0001/two-sum.py''" 4 "''0001''"]
    by (simp add: is_digit_def spec_problem_at_def startswith_def)
  have "\<forall>j \<in> set [0..<15]. spec_problem_at ''src/two-sum.py'' j = None"
    by code_simp
  then have "\<forall>j \<le> (14::nat). spec_problem_at ''src/two-sum.py'' j = None"
    by (simp add: less_Suc_eq_le [symmetric])
  then show "extract_problem_number ''two-sum.py'' ''src/two-sum.py'' = ''Unknown''"
    using extract_problem_number_spec [of "''two-sum.py''" "''src/two-sum.py''" 0 "''''"]
    by (simp add: is_digit_def)
qed

text \<open>
  Claim C5. The specification asks that only a trailing \<open>.git\<close> be stripped from the
  repository name. The code calls \<open>replace('.git', '')\<close>, which removes every
  occurrence: for a GitHub Pages repository the interior \<open>.git\<close> of \<open>.github.io\<close>
  is deleted and the parsed name is no longer the repository's.
\<close>

theorem parse_github_url_interior_git:
  "parse_github_url ''https://github.com/octocat/octocat.github.io''
     = Inr (''octocat'', ''octocathub.io'', '''')"
  by (simp add: parse_github_url_def rstrip_def match_tree_def match_repo_def
      startswith_def not_slash_def)

lemma startswith_lower: "startswith s t \<Longrightarrow> startswith (lower s) (lower t)"
proof -
  assume "startswith s t"
  then have "take (length t) s = t" by (simp add: startswith_def)
  then have "map lower_char (take (length t) s) = map lower_char t" by simp
  then show ?thesis by (simp add: startswith_def lower_def take_map)
qed

lemma substr_in_lower: "substr_in t s \<Longrightarrow> substr_in (lower t) (lower s)"
proof (induction s)
  case Nil
  then show ?case by (simp add: lower_def)
next
  case (Cons c cs)
  from Cons.prems have "startswith (c # cs) t \<or> substr_in t cs" by simp
  then show ?case
  proof
    assume "startswith (c # cs) t"
    then have "startswith (lower (c # cs)) (lower t)" by (rule startswith_lower)
    then show ?thesis by (simp add: lower_def)
  next
    assume "substr_in t cs"
    then have "substr_in (lower t) (lower cs)" by (rule Cons.IH)
    then show ?thesis by (simp add: lower_def)
  qed
qed

lemma scan_paths_clean:
  "\<forall>p \<in> set (scan_repository r).
      \<not> substr_in ''test'' (lower (path p)) \<and> \<not> substr_in ''helper'' (lower (path p))"
  "\<forall>p \<in> set (scan_items items).
      \<not> substr_in ''test'' (lower (path p)) \<and> \<not> substr_in ''helper'' (lower (path p))"
proof (induction r and items rule: scan_repository_scan_items.induct)
  case (1 r)
  then show ?case by (simp add: scan_repository.simps Let_def)
next
  case 2
  show ?case by simp
next
  case (3 item rest)
  then show ?case by (auto simp: Let_def)
qed

lemma scan_example:
  "scan_repository example_tree =
     [\<lparr>filename = ''1-two-sum.py'', path = ''1-two-sum.py'', code = ''x = 1'',
        language = ''Python'', problem_number = ''1''\<rparr>,
      \<lparr>filename = ''longest-substring.go'', path = ''15/longest-substring.go'',
        code = ''package'', language = ''Go'', problem_number = ''Unknown''\<rparr>]"
  by code_simp

lemma matched_example: "length (matched_entries example_tree) = 3"
  by code_simp

lemma scan_code_nonempty:
  "\<forall>p \<in> set (scan_repository r). code p \<noteq> ''''"
  "\<forall>p \<in> set (scan_items items). code p \<noteq> ''''"
proof (induction r and items rule: scan_repository_scan_items.induct)
  case (1 r)
  then show ?case by (simp add: scan_repository.simps Let_def)
next
  case 2
  show ?case by simp
next
  case (3 item rest)
  then show ?case by (auto simp: Let_def)
qed

lemma scan_is_filtered_matched:
  "map path (scan_repository r) =
     map item_path (filter (\<lambda>i. get_file_content (download i) \<noteq> '''') (matched_entries r))"
  "map path (scan_items items) =
     map item_path (filter (\<lambda>i. get_file_content (download i) \<noteq> '''') (matched_items items))"
proof (induction r and items rule: scan_repository_scan_items.induct)
  case (1 r)
  then show ?case
    by (cases "get_repo_contents r = []")
       (simp_all add: scan_repository.simps matched_entries.simps Let_def)
next
  case 2
  show ?case by simp
next
  case (3 item rest)
  then show ?case by (auto simp: Let_def)
qed

text \<open>
  Claim C7. For every directory tree supplied by the code host, no source file yielded
  by \<open>scan_repository\<close> has a path that contains \<open>test\<close> or \<open>helper\<close> written in any
  letter case, whatever the extension of its name.
\<close>

theorem scan_repository_excludes_test_helper:
  "\<forall>p \<in> set (scan_repository r).
     \<forall>t. lower t = ''test'' \<or> lower t = ''helper'' \<longrightarrow> \<not> substr_in t (path p)"
proof (intro ballI allI impI notI)
  fix p t
  assume p: "p \<in> set (scan_repository r)"
    and t: "lower t = ''test'' \<or> lower t = ''helper''"
    and sub: "substr_in t (path p)"
  from sub have "substr_in (lower t) (lower (path p))" by (rule substr_in_lower)
  with t have "substr_in ''test'' (lower (path p)) \<or> substr_in ''helper'' (lower (path p))"
    by auto
  with p scan_paths_clean(1) [of r] show False by blast
qed

theorem scan_repository_excludes_test_helper_witness:
  "\<lparr>filename = ''1-two-sum.py'', path = ''1-two-sum.py'', code = ''x = 1'',
        language = ''Python'', problem_number = ''1''\<rparr> \<in> set (scan_repository example_tree)
   \<and> lower ''TeSt'' = ''test''
   \<and> \<not> substr_in ''TeSt'' ''1-two-sum.py''"
proof -
  have l: "lower ''TeSt'' = ''test''" by code_simp
  have m: "\<lparr>filename = ''1-two-sum.py'', path = ''1-two-sum.py'', code = ''x = 1'',
        language = ''Python'', problem_number = ''1''\<rparr> \<in> set (scan_repository example_tree)"
    by (simp add: scan_example)
  from scan_repository_excludes_test_helper [of example_tree] m l
  have "\<not> substr_in ''TeSt'' (path \<lparr>filename = ''1-two-sum.py'', path = ''1-two-sum.py'',
        code = ''x = 1'', language = ''Python'', problem_number = ''1''\<rparr>)"
    by blast
  with m l show ?thesis by simp
qed

text \<open>
  Claim C10. Every source file yielded by \<open>scan_repository\<close> has non-empty code. The
  crawl yields, in order, exactly the matched file entries whose download gave a
  non-empty text (status 200), so an entry whose download fails or is empty is
  left out, and the output can be strictly shorter than the list of matched entries.
\<close>

theorem scan_repository_code_nonempty:
  "(\<forall>p \<in> set (scan_repository r). code p \<noteq> '''')
   \<and> map path (scan_repository r) =
       map item_path (filter (\<lambda>i. get_file_content (download i) \<noteq> '''') (matched_entries r))
   \<and> (\<exists>r'. length (scan_repository r') < length (matched_entries r'))"
proof (intro conjI)
  show "\<forall>p \<in> set (scan_repository r). code p \<noteq> ''''" by (rule scan_code_nonempty(1))
  show "map path (scan_repository r) =
       map item_path (filter (\<lambda>i. get_file_content (download i) \<noteq> '''') (matched_entries r))"
    by (rule scan_is_filtered_matched(1))
  have "length (scan_repository example_tree) < length (matched_entries example_tree)"
    by (simp add: scan_example matched_example)
  then show "\<exists>r'. length (scan_repository r') < length (matched_entries r')" by blast
qed

theorem scan_repository_code_nonempty_witness:
  "\<lparr>filename = ''1-two-sum.py'', path = ''1-two-sum.py'', code = ''x = 1'',
        language = ''Python'', problem_number = ''1''\<rparr> \<in> set (scan_repository example_tree)
   \<and> length (scan_repository example_tree) = 2
   \<and> length (matched_entries example_tree) = 3
   \<and> map path (scan_repository example_tree) = [''1-two-sum.py'', ''15/longest-substring.go'']"
  using scan_repository_code_nonempty [of example_tree]
  by (simp add: scan_example matched_example)

lemma lt_num_batches: "3 * k < length ps \<longleftrightarrow> k < num_batches ps"
  by (auto simp: num_batches_def)

lemma analyze_batch_sent: "snd (analyze_batch g l k p b) = [Generate p]"
  by (simp add: analyze_batch_def call_gemini_api_def Let_def split: sum.splits)

lemma analyze_batch_records: "fst (analyze_batch g l k p b) = records_of_reply l (g k p) b"
  by (simp add: analyze_batch_def call_gemini_api_def records_of_reply_def Let_def
           split: sum.splits)

lemma analyze_loop_unfold:
  "analyze_loop g l ps (3 * k) (acc, log) =
     (acc @ concat (map (batch_output g l ps) [k..<num_batches ps]),
      log @ concat (map (batch_events ps) [k..<num_batches ps]))"
proof (induction "num_batches ps - k" arbitrary: k acc log)
  case 0
  then have "\<not> 3 * k < length ps" by (simp add: lt_num_batches)
  moreover have "[k..<num_batches ps] = []" using 0 by simp
  ultimately show ?case by (simp only: analyze_loop.simps [of g l ps "3 * k"] if_False
       list.map concat.simps append_Nil2)
next
  case (Suc n)
  then have lt: "k < num_batches ps" and n: "n = num_batches ps - Suc k" by simp_all
  from lt have i: "3 * k < length ps" by (simp add: lt_num_batches)
  have pause: "(3 * k + 3 < length ps) = (Suc k < num_batches ps)"
    using lt_num_batches [of "Suc k" ps] by (simp add: add.commute)
  have upt: "[k..<num_batches ps] = k # [Suc k..<num_batches ps]"
    using lt by (simp add: upt_conv_Cons)
  have step: "analyze_loop g l ps (3 * k) (acc, log) =
      analyze_loop g l ps (3 * Suc k)
        (acc @ batch_output g l ps k, log @ batch_events ps k)"
    using i pause
    by (subst analyze_loop.simps)
       (simp add: Let_def batch_size_def batch_output_def batch_events_def batch_of_def
          add.commute split_beta analyze_batch_sent time_sleep_def)
  show ?case
    unfolding step Suc.hyps(1) [OF n] upt by simp
qed

lemma analyze_with_gemini_batches:
  "analyze_with_gemini g l ps =
     (concat (map (batch_output g l ps) [0..<num_batches ps]),
      concat (map (batch_events ps) [0..<num_batches ps]))"
  using analyze_loop_unfold [of g l ps 0 "[]" "[]"] by (simp add: analyze_with_gemini_def)

lemma concat_batches_from:
  "concat (map (batch_of ps) [k..<num_batches ps]) = drop (3 * k) ps"
proof (induction "num_batches ps - k" arbitrary: k)
  case 0
  then have "\<not> 3 * k < length ps" by (simp add: lt_num_batches)
  then show ?case using 0 by simp
next
  case (Suc n)
  then have lt: "k < num_batches ps" and n: "n = num_batches ps - Suc k" by simp_all
  have upt: "[k..<num_batches ps] = k # [Suc k..<num_batches ps]"
    using lt by (simp add: upt_conv_Cons)
  have "take 3 (drop (3 * k) ps) @ drop (3 * Suc k) ps = drop (3 * k) ps"
    by (metis add.commute append_take_drop_id drop_drop mult_Suc_right)
  then show ?case unfolding upt using Suc.hyps(1) [OF n] by (simp add: batch_of_def)
qed

lemma concat_batches: "concat (map (batch_of ps) [0..<num_batches ps]) = ps"
  using concat_batches_from [of ps 0] by simp

lemma length_batch_of:
  "k < num_batches ps \<Longrightarrow>
     length (batch_of ps k) = (if Suc k < num_batches ps then 3 else length ps - 3 * k)"
  using lt_num_batches [of "Suc k" ps] by (auto simp: batch_of_def)

lemma batch_of_nonempty: "k < num_batches ps \<Longrightarrow> 0 < length (batch_of ps k)"
  using lt_num_batches [of k ps] by (simp add: batch_of_def)

lemma dict_get_dict_set:
  "dict_get (dict_set k v d) k' = (if k' = k then Some v else dict_get d k')"
  by (induction d) (auto simp: dict_get_def)

lemma merge_entry_carries: "carries p (PDict (merge_entry d p))"
  by (simp add: carries_def py_get_def merge_entry_def Let_def dict_get_dict_set)

lemma merge_loop_aligned:
  "merge_loop i arr orig = Some m \<Longrightarrow>
     length m = length arr \<and> (\<forall>j < length arr. i + j < length orig \<longrightarrow> carries (orig ! (i + j)) (m ! j))"
proof (induction arr arbitrary: i m)
  case Nil
  then show ?case by simp
next
  case (Cons a arr)
  from Cons.prems obtain a' m' where m: "m = a' # m'" and rest: "merge_loop (Suc i) arr orig = Some m'"
    and hd: "i < length orig \<longrightarrow> carries (orig ! i) a'"
    by (auto simp: merge_entry_carries split: if_splits pyval.splits)
  from Cons.IH [OF rest] have len: "length m' = length arr"
    and al: "\<forall>j < length arr. Suc i + j < length orig \<longrightarrow> carries (orig ! (Suc i + j)) (m' ! j)"
    by simp_all
  have "\<forall>j < length (a # arr). i + j < length orig \<longrightarrow> carries (orig ! (i + j)) (m ! j)"
  proof (intro allI impI)
    fix j assume j: "j < length (a # arr)" "i + j < length orig"
    show "carries (orig ! (i + j)) (m ! j)"
    proof (cases j)
      case 0
      then show ?thesis using hd j m by simp
    next
      case (Suc j')
      then show ?thesis using al j m by simp
    qed
  qed
  then show ?case using len m by simp
qed

lemma py_find_none: "py_find c s = - 1 \<longleftrightarrow> c \<notin> set s"
  by (simp add: py_find_def)

lemma takeWhile_shorter: "c \<in> set s \<Longrightarrow> length (takeWhile (\<lambda>x. x \<noteq> c) s) < length s"
  by (induction s) auto

lemma py_rfind_none: "py_rfind c s + 1 = 0 \<longleftrightarrow> c \<notin> set s"
proof (cases "c \<in> set s")
  case True
  then have "c \<in> set (rev s)" by simp
  then have "length (takeWhile (\<lambda>x. x \<noteq> c) (rev s)) < length (rev s)"
    by (rule takeWhile_shorter)
  then show ?thesis using True by (simp add: py_rfind_def)
next
  case False
  then show ?thesis by (simp add: py_rfind_def)
qed

lemma parse_gemini_response_reply_array:
  "parse_gemini_response loads response batch =
     (case reply_array loads response of
        None \<Rightarrow> []
      | Some arr \<Rightarrow> (case merge_loop 0 arr batch of None \<Rightarrow> [] | Some m \<Rightarrow> m))"
  by (simp add: parse_gemini_response_def reply_array_def Let_def py_find_none py_rfind_none)

lemma failed_record_default: "default_record ''Analysis failed'' p (failed_record p)"
  by (simp add: default_record_def carries_def py_get_def dict_get_def failed_record_def)

lemma pending_record_default: "default_record ''Analysis pending'' p (pending_record p)"
  by (simp add: default_record_def carries_def py_get_def dict_get_def pending_record_def)

lemma list_all2_map_self: "(\<And>x. P x (f x)) \<Longrightarrow> list_all2 P xs (map f xs)"
  by (induction xs) auto

lemma list_all2_concat:
  "list_all2 (list_all2 P) xss yss \<Longrightarrow> list_all2 P (concat xss) (concat yss)"
  by (induction xss yss rule: list_all2_induct) (auto intro: list_all2_appendI)

lemma prompt_loop_closed:
  "prompt_loop i ps acc =
     acc @ concat (map (\<lambda>(j, p).
         ''\<newline>--- Solution '' @ str_nat j @ '' ---\<newline>''
         @ ''File: '' @ filename p @ ''\<newline>''
         @ ''Language: '' @ language p @ ''\<newline>''
         @ ''Code:\<newline>'' @ take 1200 (code p) @ ''\<newline>'') (zip [i..<i + length ps] ps))"
proof (induction ps arbitrary: i acc)
  case Nil
  then show ?case by simp
next
  case (Cons p ps)
  have "i < i + length (p # ps)" by simp
  then have "[i..<i + length (p # ps)] = i # [Suc i..<i + length (p # ps)]"
    by (rule upt_conv_Cons)
  then have "[i..<i + length (p # ps)] = i # [Suc i..<Suc i + length ps]"
    by simp
  then show ?case using Cons.IH [of "Suc i"] by simp
qed

lemma batch_output_records:
  "batch_output g l ps k =
     records_of_reply l (g k (create_gemini_prompt (batch_of ps k))) (batch_of ps k)"
  by (simp add: batch_output_def analyze_batch_records)

lemma parse_gemini_response_merged:
  "parse_gemini_response l response batch \<noteq> [] \<Longrightarrow>
     \<exists>arr. reply_array l response = Some arr
           \<and> merge_loop 0 arr batch = Some (parse_gemini_response l response batch)"
  by (auto simp: parse_gemini_response_reply_array split: option.splits)

lemma parse_gemini_response_carries:
  assumes "parse_gemini_response l response batch \<noteq> []"
    and "length (parse_gemini_response l response batch) = length batch"
  shows "list_all2 carries batch (parse_gemini_response l response batch)"
proof -
  from parse_gemini_response_merged [OF assms(1)] obtain arr where
    m: "merge_loop 0 arr batch = Some (parse_gemini_response l response batch)"
    by blast
  from merge_loop_aligned [OF m] assms(2) show ?thesis
    by (simp add: list_all2_conv_all_nth)
qed

lemma records_of_reply_carries:
  assumes "case reply of
             Inl e \<Rightarrow> True
           | Inr response \<Rightarrow>
               parse_gemini_response l response batch = []
               \<or> length (parse_gemini_response l response batch) = length batch"
  shows "list_all2 carries batch (records_of_reply l reply batch)"
proof (cases reply)
  case (Inl e)
  then show ?thesis
    using failed_record_default
    by (simp add: records_of_reply_def list_all2_map_self default_record_def)
next
  case (Inr response)
  show ?thesis
  proof (cases "parse_gemini_response l response batch = []")
    case True
    then show ?thesis
      using Inr pending_record_default
      by (simp add: records_of_reply_def list_all2_map_self default_record_def)
  next
    case False
    with assms Inr have "length (parse_gemini_response l response batch) = length batch"
      by simp
    from parse_gemini_response_carries [OF False this] show ?thesis
      using Inr False by (simp add: records_of_reply_def)
  qed
qed

text \<open>
  Claim C9. For every input list of \<open>n\<close> files the annotation step works on
  \<open>ceil(n/3)\<close> batches that cut the input in order, each of three files but the last,
  which has the rest. Its requests and pauses are, batch after batch, one generation
  call with the prompt of the batch and, after every batch but the last, a sleep of 2
  seconds; the records of a batch are those that the reply of its call gives. The
  prompt of a batch is the fixed header followed, for each file, by its number, its
  name, its language and the first 1200 characters of its code.
\<close>

theorem analyze_with_gemini_batching:
  "snd (analyze_with_gemini gemini loads problems) =
       concat (map (\<lambda>k. Generate (create_gemini_prompt (batch_of problems k))
                         # (if Suc k < num_batches problems then [Sleep 2] else []))
                   [0..<num_batches problems])
   \<and> fst (analyze_with_gemini gemini loads problems) =
       concat (map (\<lambda>k. records_of_reply loads
                           (gemini k (create_gemini_prompt (batch_of problems k)))
                           (batch_of problems k))
                   [0..<num_batches problems])
   \<and> analyze_batch gemini loads k prompt batch
       = (records_of_reply loads (gemini k prompt) batch, [Generate prompt])
   \<and> num_batches problems = (length problems + 2) div 3
   \<and> concat (map (batch_of problems) [0..<num_batches problems]) = problems
   \<and> (\<forall>k < num_batches problems.
         length (batch_of problems k)
           = (if Suc k < num_batches problems then 3 else length problems - 3 * k)
         \<and> 0 < length (batch_of problems k) \<and> length (batch_of problems k) \<le> 3)
   \<and> create_gemini_prompt batch =
       prompt_header @ concat (map (\<lambda>(j, p).
           ''\<newline>--- Solution '' @ str_nat j @ '' ---\<newline>''
           @ ''File: '' @ filename p @ ''\<newline>''
           @ ''Language: '' @ language p @ ''\<newline>''
           @ ''Code:\<newline>'' @ take 1200 (code p) @ ''\<newline>'') (zip [1..<Suc (length batch)] batch))"
proof (intro conjI allI impI)
  have "batch_events problems =
          (\<lambda>k. Generate (create_gemini_prompt (batch_of problems k))
                # (if Suc k < num_batches problems then [Sleep 2] else []))"
    by (rule ext) (simp add: batch_events_def)
  then show "snd (analyze_with_gemini gemini loads problems) =
       concat (map (\<lambda>k. Generate (create_gemini_prompt (batch_of problems k))
                         # (if Suc k < num_batches problems then [Sleep 2] else []))
                   [0..<num_batches problems])"
    by (simp add: analyze_with_gemini_batches)
next
  have "batch_output gemini loads problems =
          (\<lambda>k. records_of_reply loads
                  (gemini k (create_gemini_prompt (batch_of problems k)))
                  (batch_of problems k))"
    by (rule ext) (rule batch_output_records)
  then show "fst (analyze_with_gemini gemini loads problems) =
       concat (map (\<lambda>k. records_of_reply loads
                           (gemini k (create_gemini_prompt (batch_of problems k)))
                           (batch_of problems k))
                   [0..<num_batches problems])"
    by (simp add: analyze_with_gemini_batches)
next
  show "analyze_batch gemini loads k prompt batch
       = (records_of_reply loads (gemini k prompt) batch, [Generate prompt])"
    using analyze_batch_records [of gemini loads k prompt batch]
      analyze_batch_sent [of gemini loads k prompt batch]
    by (simp add: prod_eq_iff)
next
  show "num_batches problems = (length problems + 2) div 3" by (simp add: num_batches_def)
next
  show "concat (map (batch_of problems) [0..<num_batches problems]) = problems"
    by (rule concat_batches)
next
  fix k assume "k < num_batches problems"
  then show "length (batch_of problems k)
           = (if Suc k < num_batches problems then 3 else length problems - 3 * k)"
    by (rule length_batch_of)
next
  fix k assume "k < num_batches problems"
  then show "0 < length (batch_of problems k)" by (rule batch_of_nonempty)
next
  fix k
  show "length (batch_of problems k) \<le> 3" by (simp add: batch_of_def)
next
  show "create_gemini_prompt batch =
       prompt_header @ concat (map (\<lambda>(j, p).
           ''\<newline>--- Solution '' @ str_nat j @ '' ---\<newline>''
           @ ''File: '' @ filename p @ ''\<newline>''
           @ ''Language: '' @ language p @ ''\<newline>''
           @ ''Code:\<newline>'' @ take 1200 (code p) @ ''\<newline>'') (zip [1..<Suc (length batch)] batch))"
    using prompt_loop_closed [of 1 batch prompt_header] by (simp add: create_gemini_prompt_def)
qed

theorem analyze_with_gemini_batching_witness:
  "snd (analyze_with_gemini short_reply_gemini example_loads example_files) =
       [Generate (create_gemini_prompt (take 3 example_files)), Sleep 2,
        Generate (create_gemini_prompt (drop 3 example_files))]
   \<and> fst (analyze_with_gemini short_reply_gemini example_loads example_files) =
       parse_gemini_response example_loads example_reply (take 3 example_files)
       @ map failed_record (drop 3 example_files)
   \<and> num_batches example_files = 2
   \<and> length (batch_of example_files 0) = 3
   \<and> length (batch_of example_files 1) = 1"
proof -
  have n: "num_batches example_files = 2" by (simp add: num_batches_def example_files_def)
  have u: "[0..<2] = [0, Suc 0]" by (simp add: upt_rec)
  have b0: "batch_of example_files 0 = take 3 example_files" by (simp add: batch_of_def)
  have b1: "batch_of example_files (Suc 0) = drop 3 example_files"
    by (simp add: batch_of_def example_files_def)
  have p: "parse_gemini_response example_loads example_reply (take 3 example_files) \<noteq> []"
    by code_simp
  have r0: "records_of_reply example_loads
              (short_reply_gemini 0 (create_gemini_prompt (take 3 example_files)))
              (take 3 example_files)
            = parse_gemini_response example_loads example_reply (take 3 example_files)"
    using p by (simp add: records_of_reply_def short_reply_gemini_def)
  have r1: "records_of_reply example_loads
              (short_reply_gemini (Suc 0) (create_gemini_prompt (drop 3 example_files)))
              (drop 3 example_files)
            = map failed_record (drop 3 example_files)"
    by (simp add: records_of_reply_def short_reply_gemini_def)
  from analyze_with_gemini_batching [of short_reply_gemini example_loads example_files 0 "[]" "[]"]
  have "snd (analyze_with_gemini short_reply_gemini example_loads example_files) =
       concat (map (\<lambda>k. Generate (create_gemini_prompt (batch_of example_files k))
                         # (if Suc k < num_batches example_files then [Sleep 2] else []))
                   [0..<num_batches example_files])"
    and "fst (analyze_with_gemini short_reply_gemini example_loads example_files) =
       concat (map (\<lambda>k. records_of_reply example_loads
                           (short_reply_gemini k (create_gemini_prompt (batch_of example_files k)))
                           (batch_of example_files k))
                   [0..<num_batches example_files])"
    by blast+
  then have "snd (analyze_with_gemini short_reply_gemini example_loads example_files) =
       [Generate (create_gemini_prompt (take 3 example_files)), Sleep 2,
        Generate (create_gemini_prompt (drop 3 example_files))]"
    and "fst (analyze_with_gemini short_reply_gemini example_loads example_files) =
       parse_gemini_response example_loads example_reply (take 3 example_files)
       @ map failed_record (drop 3 example_files)"
    by (simp_all add: n u b0 b1 r0 r1)
  moreover have "length (batch_of example_files 0) = 3" "length (batch_of example_files 1) = 1"
    by (simp_all add: batch_of_def example_files_def)
  ultimately show ?thesis using n by blast
qed

text \<open>
  Claim C3. If the generation call of a batch raises (or times out), every file of the
  batch gets a record with difficulty and both complexities \<open>Unknown\<close>, empty
  algorithms, data structures and tags, and explanation \<open>Analysis failed\<close>; if the
  call returns and the reply does not decode to a JSON array, every file gets the same
  record with explanation \<open>Analysis pending\<close>. The output of the run is the
  concatenation of the outputs of all batches, so the other batches are annotated
  whatever happens to one of them.
\<close>

theorem analyze_with_gemini_failure_policy:
  "(gemini k prompt = Inl e \<longrightarrow>
      list_all2 (default_record ''Analysis failed'') batch
                (fst (analyze_batch gemini loads k prompt batch)))
   \<and> (gemini k prompt = Inr response \<and> reply_array loads response = None \<longrightarrow>
      list_all2 (default_record ''Analysis pending'') batch
                (fst (analyze_batch gemini loads k prompt batch)))
   \<and> fst (analyze_with_gemini gemini loads problems) =
       concat (map (\<lambda>j. fst (analyze_batch gemini loads j
                                (create_gemini_prompt (batch_of problems j))
                                (batch_of problems j)))
                   [0..<num_batches problems])"
proof (intro conjI impI)
  assume "gemini k prompt = Inl e"
  then have "fst (analyze_batch gemini loads k prompt batch) = map failed_record batch"
    by (simp add: analyze_batch_records records_of_reply_def)
  then show "list_all2 (default_record ''Analysis failed'') batch
                (fst (analyze_batch gemini loads k prompt batch))"
    using failed_record_default by (simp add: list_all2_map_self)
next
  assume "gemini k prompt = Inr response \<and> reply_array loads response = None"
  then have "fst (analyze_batch gemini loads k prompt batch) = map pending_record batch"
    by (simp add: analyze_batch_records records_of_reply_def parse_gemini_response_reply_array)
  then show "list_all2 (default_record ''Analysis pending'') batch
                (fst (analyze_batch gemini loads k prompt batch))"
    using pending_record_default by (simp add: list_all2_map_self)
next
  have "batch_output gemini loads problems =
          (\<lambda>j. fst (analyze_batch gemini loads j (create_gemini_prompt (batch_of problems j))
                       (batch_of problems j)))"
    by (rule ext) (simp add: batch_output_def)
  then show "fst (analyze_with_gemini gemini loads problems) =
       concat (map (\<lambda>j. fst (analyze_batch gemini loads j
                                (create_gemini_prompt (batch_of problems j))
                                (batch_of problems j)))
                   [0..<num_batches problems])"
    by (simp add: analyze_with_gemini_batches)
qed

theorem analyze_with_gemini_failure_policy_witness:
  "failing_gemini 1 (create_gemini_prompt (drop 3 example_files)) = Inl GeminiError
   \<and> list_all2 (default_record ''Analysis failed'') (drop 3 example_files)
        (fst (analyze_batch failing_gemini example_loads 1
                (create_gemini_prompt (drop 3 example_files)) (drop 3 example_files)))
   \<and> failing_gemini 0 (create_gemini_prompt (take 3 example_files)) = Inr ''Sorry, I cannot help.''
   \<and> reply_array example_loads ''Sorry, I cannot help.'' = None
   \<and> list_all2 (default_record ''Analysis pending'') (take 3 example_files)
        (fst (analyze_batch failing_gemini example_loads 0
                (create_gemini_prompt (take 3 example_files)) (take 3 example_files)))
   \<and> fst (analyze_with_gemini failing_gemini example_loads example_files) =
        map pending_record (take 3 example_files) @ map failed_record (drop 3 example_files)"
proof -
  have g1: "failing_gemini 1 (create_gemini_prompt (drop 3 example_files)) = Inl GeminiError"
    by (simp add: failing_gemini_def)
  have g0: "failing_gemini 0 (create_gemini_prompt (take 3 example_files))
              = Inr ''Sorry, I cannot help.''"
    by (simp add: failing_gemini_def)
  have r: "reply_array example_loads ''Sorry, I cannot help.'' = None"
    by (simp add: reply_array_def strip_def is_space_def)
  have n: "num_batches example_files = 2" by (simp add: num_batches_def example_files_def)
  have u: "[0..<2] = [0, Suc 0]" by (simp add: upt_rec)
  have b0: "batch_of example_files 0 = take 3 example_files" by (simp add: batch_of_def)
  have b1: "batch_of example_files (Suc 0) = drop 3 example_files"
    by (simp add: batch_of_def example_files_def)
  have a0: "fst (analyze_batch failing_gemini example_loads 0
           (create_gemini_prompt (take 3 example_files)) (take 3 example_files))
            = map pending_record (take 3 example_files)"
    using g0 r
    by (simp add: analyze_batch_records records_of_reply_def parse_gemini_response_reply_array)
  have a1: "fst (analyze_batch failing_gemini example_loads (Suc 0)
           (create_gemini_prompt (drop 3 example_files)) (drop 3 example_files))
            = map failed_record (drop 3 example_files)"
    using g1 by (simp add: analyze_batch_records records_of_reply_def)
  note t1 = analyze_with_gemini_failure_policy
      [of failing_gemini 1 "create_gemini_prompt (drop 3 example_files)" GeminiError
          "drop 3 example_files" example_loads "''''" example_files]
  note t0 = analyze_with_gemini_failure_policy
      [of failing_gemini 0 "create_gemini_prompt (take 3 example_files)" GeminiError
          "take 3 example_files" example_loads "''Sorry, I cannot help.''" example_files]
  from t1 g1 have c1: "list_all2 (default_record ''Analysis failed'') (drop 3 example_files)
        (fst (analyze_batch failing_gemini example_loads 1
                (create_gemini_prompt (drop 3 example_files)) (drop 3 example_files)))"
    by blast
  from t0 g0 r have c0: "list_all2 (default_record ''Analysis pending'') (take 3 example_files)
        (fst (analyze_batch failing_gemini example_loads 0
                (create_gemini_prompt (take 3 example_files)) (take 3 example_files)))"
    by blast
  from t0 have "fst (analyze_with_gemini failing_gemini example_loads example_files) =
       concat (map (\<lambda>j. fst (analyze_batch failing_gemini example_loads j
                                (create_gemini_prompt (batch_of example_files j))
                                (batch_of example_files j)))
                   [0..<num_batches example_files])"
    by blast
  then have c2: "fst (analyze_with_gemini failing_gemini example_loads example_files) =
        map pending_record (take 3 example_files) @ map failed_record (drop 3 example_files)"
    by (simp add: n u b0 b1 a0 a1)
  from g1 c1 g0 r c0 c2 show ?thesis by blast
qed

text \<open>
  Claim C1, as stated, fails: when the call succeeds and the reply decodes to an array
  of dictionaries shorter than its batch, the merged array is the output of the batch.
  With four files, a two-entry reply for the first batch and a failed call for the
  second, the output has three records and its third record carries the fourth file.
\<close>

theorem analyze_with_gemini_alignment_counterexample:
  "length (fst (analyze_with_gemini short_reply_gemini example_loads example_files)) = 3
   \<and> length example_files = 4
   \<and> carries (example_files ! 3)
        (fst (analyze_with_gemini short_reply_gemini example_loads example_files) ! 2)
   \<and> \<not> carries (example_files ! 2)
        (fst (analyze_with_gemini short_reply_gemini example_loads example_files) ! 2)"
  by code_simp

text \<open>
  Claim C1, amended. If for every batch the generation call raises, or
  \<open>parse_gemini_response\<close> returns the empty list (the batch then falls back to the
  default records), or it returns a list with as many entries as the batch has files,
  then the annotation step returns a list of the same length as its input and the
  \<open>i\<close>-th output record carries the path and the code of the \<open>i\<close>-th input file.
  When the call of a batch succeeds and \<open>parse_gemini_response\<close> returns a non-empty
  list, that list is the output of the batch, whatever its length.
\<close>

theorem analyze_with_gemini_aligned:
  "((\<forall>k < num_batches problems.
       (case gemini k (create_gemini_prompt (batch_of problems k)) of
          Inl e \<Rightarrow> True
        | Inr response \<Rightarrow>
            parse_gemini_response loads response (batch_of problems k) = []
            \<or> length (parse_gemini_response loads response (batch_of problems k))
                = length (batch_of problems k)))
    \<longrightarrow> length (fst (analyze_with_gemini gemini loads problems)) = length problems
        \<and> (\<forall>i < length problems.
              carries (problems ! i) (fst (analyze_with_gemini gemini loads problems) ! i)))
   \<and> (gemini k prompt = Inr response \<and> parse_gemini_response loads response batch \<noteq> []
       \<longrightarrow> fst (analyze_batch gemini loads k prompt batch)
             = parse_gemini_response loads response batch)"
proof (intro conjI impI)
  assume h: "\<forall>k < num_batches problems.
      (case gemini k (create_gemini_prompt (batch_of problems k)) of
         Inl e \<Rightarrow> True
       | Inr response \<Rightarrow>
           parse_gemini_response loads response (batch_of problems k) = []
           \<or> length (parse_gemini_response loads response (batch_of problems k))
               = length (batch_of problems k))"
  have "\<forall>k \<in> set [0..<num_batches problems].
          list_all2 carries (batch_of problems k) (batch_output gemini loads problems k)"
    using h records_of_reply_carries by (simp add: batch_output_records)
  then have "list_all2 (list_all2 carries)
               (map (batch_of problems) [0..<num_batches problems])
               (map (batch_output gemini loads problems) [0..<num_batches problems])"
    by (simp add: list.rel_map list_all2_same)
  then have "list_all2 carries
               (concat (map (batch_of problems) [0..<num_batches problems]))
               (concat (map (batch_output gemini loads problems) [0..<num_batches problems]))"
    by (rule list_all2_concat)
  then have a: "list_all2 carries problems (fst (analyze_with_gemini gemini loads problems))"
    by (simp add: concat_batches analyze_with_gemini_batches)
  then show "length (fst (analyze_with_gemini gemini loads problems)) = length problems"
    by (simp add: list_all2_lengthD)
  from a show "\<forall>i < length problems.
             carries (problems ! i) (fst (analyze_with_gemini gemini loads problems) ! i)"
    by (simp add: list_all2_conv_all_nth)
next
  assume "gemini k prompt = Inr response \<and> parse_gemini_response loads response batch \<noteq> []"
  then show "fst (analyze_batch gemini loads k prompt batch)
             = parse_gemini_response loads response batch"
    by (simp add: analyze_batch_records records_of_reply_def)
qed

theorem analyze_with_gemini_aligned_witness:
  "length (fst (analyze_with_gemini short_reply_gemini example_loads (take 2 example_files))) = 2
   \<and> carries (example_files ! 1)
        (fst (analyze_with_gemini short_reply_gemini example_loads (take 2 example_files)) ! 1)
   \<and> py_get (fst (analyze_with_gemini short_reply_gemini example_loads (take 2 example_files)) ! 1)
        ''difficulty'' = Some (PStr ''Hard'')"
proof -
  have n: "num_batches (take 2 example_files) = 1"
    by (simp add: num_batches_def example_files_def)
  have b: "batch_of (take 2 example_files) 0 = take 2 example_files"
    by (simp add: batch_of_def)
  have r: "length (parse_gemini_response example_loads example_reply (take 2 example_files)) = 2"
    by code_simp
  have len: "length (take 2 example_files) = 2" by (simp add: example_files_def)
  have h: "\<forall>k < num_batches (take 2 example_files).
      (case short_reply_gemini k (create_gemini_prompt (batch_of (take 2 example_files) k)) of
         Inl e \<Rightarrow> True
       | Inr response \<Rightarrow>
           parse_gemini_response example_loads response (batch_of (take 2 example_files) k) = []
           \<or> length (parse_gemini_response example_loads response
                       (batch_of (take 2 example_files) k))
               = length (batch_of (take 2 example_files) k))"
    using r len by (simp add: n b short_reply_gemini_def)
  have d: "py_get (fst (analyze_with_gemini short_reply_gemini example_loads
                          (take 2 example_files)) ! 1) ''difficulty'' = Some (PStr ''Hard'')"
    by code_simp
  note t = analyze_with_gemini_aligned
         [where problems = "take 2 example_files" and gemini = short_reply_gemini
            and loads = example_loads, THEN conjunct1, THEN mp, OF h]
  from t len
  have l: "length (fst (analyze_with_gemini short_reply_gemini example_loads
                          (take 2 example_files))) = 2"
    by simp
  from t len
  have "carries (take 2 example_files ! 1)
          (fst (analyze_with_gemini short_reply_gemini example_loads (take 2 example_files)) ! 1)"
    by simp
  then have c: "carries (example_files ! 1)
          (fst (analyze_with_gemini short_reply_gemini example_loads (take 2 example_files)) ! 1)"
    by simp
  from l c d show ?thesis by blast
qed

lemma conflicts_do_update [simp]:
  "conflicts w (do_update v r) = conflicts w r" "conflicts (do_update v r) w = conflicts r w"
  by (simp_all add: conflicts_def do_update_def)

lemma conflicts_insert_row [simp]:
  "conflicts w (insert_row now v) = conflicts w v" "conflicts (insert_row now v) w = conflicts v w"
  by (simp_all add: conflicts_def insert_row_def)



















text \<open>
  What the statement does to a table when it meets a conflict: the first conflicting
  row gets the nine values of the \<open>SET\<close> list; its key, its creation time and all
  other rows stay.
\<close>

lemma pg_upsert_conflict_frame:
  assumes "conflicts v r" "\<forall>r' \<in> set before. \<not> conflicts v r'"
  shows "pg_upsert now v (before @ r # after) = (False, before @ do_update v r # after)"
  using assms by (induction before) simp_all

lemma do_update_frame:
  "col_problem_number (do_update v r) = col_problem_number r
   \<and> col_language (do_update v r) = col_language r
   \<and> col_file_path (do_update v r) = col_file_path r
   \<and> col_user_email (do_update v r) = col_user_email r
   \<and> col_created_at (do_update v r) = col_created_at r"
  by (simp add: do_update_def)

text \<open>
  Claim C6. The key of a record counts as existing when a row has the same four key
  values. With the owner \<open>None\<close> the key column \<open>user_email\<close> is \<open>NULL\<close>, the
  \<open>UNIQUE\<close> constraint never reports a conflict and the statement inserts: after a
  first call has stored a record, a second call with the same key and another
  explanation leaves the existing row as it was and adds a second row with that key.
\<close>

theorem store_in_database_null_owner_not_overwritten:
  "(case store_in_database True strict_adapt 1 [failed_record (hd example_files)] None [] of
      Inl e \<Rightarrow> False
    | Inr (db1, inserted1, updated1) \<Rightarrow>
        (case store_in_database True strict_adapt 2 [pending_record (hd example_files)] None db1 of
           Inl e \<Rightarrow> False
         | Inr (db2, inserted2, updated2) \<Rightarrow>
             inserted2 = 1 \<and> updated2 = 0
             \<and> map col_explanation db2 = [Some ''Analysis failed'', Some ''Analysis pending'']
             \<and> map col_problem_number db2 = [Some ''1'', Some ''1'']
             \<and> map col_language db2 = [Some ''Python'', Some ''Python'']
             \<and> map col_file_path db2 = [Some ''1-two-sum.py'', Some ''1-two-sum.py'']
             \<and> map col_user_email db2 = [None, None]))"
  by code_simp

lemma store_in_database_connected:
  "\<exists>stored. store_in_database True a now sols e db = Inr stored"
  by (simp add: store_in_database_def split: prod.splits)

lemma store_in_database_connected_not_Inl:
  "store_in_database True a now sols e db \<noteq> Inl x"
  by (simp add: store_in_database_def split: prod.splits)

lemma store_in_database_unconnected:
  "store_in_database False a now sols e db = Inl DatabaseError"
  by (simp add: store_in_database_def)

lemma scan_four: "scan_repository four_file_tree = example_files"
  by code_simp

lemma summary_languages_summarizable:
  "list_all summarizable rs \<Longrightarrow> summary_languages rs = Inr (set (map record_language rs))"
proof (induction rs)
  case Nil
  then show ?case by simp
next
  case (Cons r rs)
  then have "summary_languages rs = Inr (set (map record_language rs))" by simp
  moreover from Cons.prems have "summarizable r" by simp
  ultimately show ?case
    by (auto simp: summarizable_def record_language_def split: pyval.splits)
qed

lemma fallback_summarizable: "summarizable (failed_record p)" "summarizable (pending_record p)"
  by (simp_all add: summarizable_def failed_record_def pending_record_def sol_get_def dict_get_def)

lemma records_of_reply_summarizable:
  assumes "case reply of
             Inl e \<Rightarrow> True
           | Inr response \<Rightarrow> list_all summarizable (parse_gemini_response l response batch)"
  shows "list_all summarizable (records_of_reply l reply batch)"
  using assms
  by (auto simp: records_of_reply_def list_all_iff fallback_summarizable split: sum.splits)

lemma analyze_with_gemini_summarizable:
  assumes "\<forall>k < num_batches ps.
             (case g k (create_gemini_prompt (batch_of ps k)) of
                Inl e \<Rightarrow> True
              | Inr response \<Rightarrow>
                  list_all summarizable (parse_gemini_response l response (batch_of ps k)))"
  shows "list_all summarizable (fst (analyze_with_gemini g l ps))"
proof -
  have "\<forall>k \<in> set [0..<num_batches ps]. list_all summarizable (batch_output g l ps k)"
    using assms records_of_reply_summarizable by (simp add: batch_output_records)
  then show ?thesis
    by (simp add: analyze_with_gemini_batches list_all_iff)
qed

text \<open>
  Claim C4, as stated, fails: an error of the persistence stage ends the run. With a
  reference that parses and a crawl that finds two source files, a database that
  cannot be reached by \<open>setup_database\<close> ends the run with its failure message and
  without a summary.
\<close>

theorem process_repository_db_setup_counterexample:
  "parse_github_url ''https://github.com/octocat/leetcode'' = Inr (''octocat'', ''leetcode'', '''')
   \<and> length (scan_repository (env_host example_env ''octocat'' ''leetcode'' '''')) = 2
   \<and> process_repository (example_env\<lparr>env_db_setup_ok := False\<rparr>)
         ''https://github.com/octocat/leetcode'' None = Inr DatabaseSetupError"
  by code_simp

text \<open>
  Claim C4, amended. A failed connection test, a malformed reference, an empty crawl,
  and a database that cannot be reached by \<open>setup_database\<close> or by
  \<open>store_in_database\<close> each end the run with their failure message and no summary.
  When the connection test passes, the reference parses, the crawl yields at least one
  source file and the database is reached both times, the run ends with its summary,
  the number of annotated records and the set of their languages, provided that every
  record that \<open>parse_gemini_response\<close> returns for a batch is a dictionary whose
  language is neither a list nor a dictionary. This holds whichever batches raise in
  the generation call or get a reply that does not decode, and whichever records the
  store rejects.
\<close>

theorem process_repository_summary:
  "(\<not> env_internet_ok env \<longrightarrow>
      process_repository env github_url user_email = Inr ConnectionTestFailed)
   \<and> (env_internet_ok env \<and> parse_github_url github_url = Inl e \<longrightarrow>
      process_repository env github_url user_email = Inr (GitHubExtractionError e))
   \<and> (env_internet_ok env \<and> parse_github_url github_url = Inr (owner, repo, start_path)
       \<and> scan_repository (env_host env owner repo start_path) = [] \<longrightarrow>
      process_repository env github_url user_email = Inr NoSolutionsFound)
   \<and> (env_internet_ok env \<and> parse_github_url github_url = Inr (owner, repo, start_path)
       \<and> scan_repository (env_host env owner repo start_path) \<noteq> []
       \<and> \<not> env_db_setup_ok env \<longrightarrow>
      process_repository env github_url user_email = Inr DatabaseSetupError)
   \<and> (env_internet_ok env \<and> parse_github_url github_url = Inr (owner, repo, start_path)
       \<and> scan_repository (env_host env owner repo start_path) \<noteq> []
       \<and> env_db_setup_ok env \<and> \<not> env_db_connect_ok env \<longrightarrow>
      process_repository env github_url user_email = Inr DatabaseStorageError)
   \<and> (env_internet_ok env \<and> parse_github_url github_url = Inr (owner, repo, start_path)
       \<and> problems = scan_repository (env_host env owner repo start_path)
       \<and> problems \<noteq> []
       \<and> env_db_setup_ok env \<and> env_db_connect_ok env
       \<and> (\<forall>k < num_batches problems.
             (case env_gemini env k (create_gemini_prompt (batch_of problems k)) of
                Inl e \<Rightarrow> True
              | Inr response \<Rightarrow>
                  list_all summarizable
                    (parse_gemini_response (env_loads env) response (batch_of problems k))))
       \<longrightarrow> process_repository env github_url user_email
             = Inr (ProcessComplete
                      (length (fst (analyze_with_gemini (env_gemini env) (env_loads env) problems)))
                      (set (map record_language
                              (fst (analyze_with_gemini (env_gemini env) (env_loads env)
                                      problems))))))"
proof (intro conjI impI)
  assume "\<not> env_internet_ok env"
  then show "process_repository env github_url user_email = Inr ConnectionTestFailed"
    by (simp add: process_repository_def)
next
  assume "env_internet_ok env \<and> parse_github_url github_url = Inl e"
  then show "process_repository env github_url user_email = Inr (GitHubExtractionError e)"
    by (simp add: process_repository_def)
next
  assume "env_internet_ok env \<and> parse_github_url github_url = Inr (owner, repo, start_path)
       \<and> scan_repository (env_host env owner repo start_path) = []"
  then show "process_repository env github_url user_email = Inr NoSolutionsFound"
    by (simp add: process_repository_def)
next
  assume "env_internet_ok env \<and> parse_github_url github_url = Inr (owner, repo, start_path)
       \<and> scan_repository (env_host env owner repo start_path) \<noteq> []
       \<and> \<not> env_db_setup_ok env"
  then show "process_repository env github_url user_email = Inr DatabaseSetupError"
    by (simp add: process_repository_def setup_database_def)
next
  assume "env_internet_ok env \<and> parse_github_url github_url = Inr (owner, repo, start_path)
       \<and> scan_repository (env_host env owner repo start_path) \<noteq> []
       \<and> env_db_setup_ok env \<and> \<not> env_db_connect_ok env"
  then show "process_repository env github_url user_email = Inr DatabaseStorageError"
    by (simp add: process_repository_def setup_database_def store_in_database_unconnected)
next
  assume h: "env_internet_ok env \<and> parse_github_url github_url = Inr (owner, repo, start_path)
       \<and> problems = scan_repository (env_host env owner repo start_path)
       \<and> problems \<noteq> []
       \<and> env_db_setup_ok env \<and> env_db_connect_ok env
       \<and> (\<forall>k < num_batches problems.
             (case env_gemini env k (create_gemini_prompt (batch_of problems k)) of
                Inl e \<Rightarrow> True
              | Inr response \<Rightarrow>
                  list_all summarizable
                    (parse_gemini_response (env_loads env) response (batch_of problems k))))"
  define analyzed where
    "analyzed = fst (analyze_with_gemini (env_gemini env) (env_loads env) problems)"
  from h have "list_all summarizable analyzed"
    unfolding analyzed_def by (intro analyze_with_gemini_summarizable) blast
  then have langs: "summary_languages analyzed = Inr (set (map record_language analyzed))"
    by (rule summary_languages_summarizable)
  obtain stored where st: "store_in_database True (env_pg_adapt env) (env_now env) analyzed
                             user_email (env_table env) = Inr stored"
    using store_in_database_connected by blast
  from h have p: "scan_repository (env_host env owner repo start_path) = problems" by simp
  from h st langs show "process_repository env github_url user_email
             = Inr (ProcessComplete
                      (length (fst (analyze_with_gemini (env_gemini env) (env_loads env) problems)))
                      (set (map record_language
                              (fst (analyze_with_gemini (env_gemini env) (env_loads env)
                                      problems)))))"
    by (simp add: process_repository_def Let_def setup_database_def p
                  analyzed_def [symmetric])
qed

theorem process_repository_summary_witness:
  "process_repository (mixed_env\<lparr>env_internet_ok := False\<rparr>)
     ''https://github.com/octocat/leetcode'' None = Inr ConnectionTestFailed
   \<and> process_repository mixed_env ''octocat/leetcode'' None
       = Inr (GitHubExtractionError (ValueError ''Invalid GitHub URL format''))
   \<and> process_repository (mixed_env\<lparr>env_host := (\<lambda>owner repo start_path. Reply 404 [])\<rparr>)
       ''https://github.com/octocat/leetcode'' None = Inr NoSolutionsFound
   \<and> process_repository (mixed_env\<lparr>env_db_setup_ok := False\<rparr>)
       ''https://github.com/octocat/leetcode'' None = Inr DatabaseSetupError
   \<and> process_repository (mixed_env\<lparr>env_db_connect_ok := False\<rparr>)
       ''https://github.com/octocat/leetcode'' None = Inr DatabaseStorageError
   \<and> process_repository mixed_env ''https://github.com/octocat/leetcode'' None
       = Inr (ProcessComplete 3 {PStr ''Python'', PStr ''Go''})"
proof -
  let ?url = "''https://github.com/octocat/leetcode''"
  have url: "parse_github_url ?url = Inr (''octocat'', ''leetcode'', '''')"
    by code_simp
  have bad: "parse_github_url ''octocat/leetcode'' = Inl (ValueError ''Invalid GitHub URL format'')"
    by code_simp
  have scan: "scan_repository (env_host mixed_env ''octocat'' ''leetcode'' '''') = example_files"
    by (simp add: mixed_env_def scan_four)
  have ne: "example_files \<noteq> []" by (simp add: example_files_def)
  have empty: "scan_repository (Reply 404 []) = []"
    by (simp add: scan_repository.simps get_repo_contents_def)
  have a: "process_repository (mixed_env\<lparr>env_internet_ok := False\<rparr>) ?url None
             = Inr ConnectionTestFailed"
    using process_repository_summary [of "mixed_env\<lparr>env_internet_ok := False\<rparr>" ?url None TypeError
               "''octocat''" "''leetcode''" "''''" example_files]
    by simp
  have b: "process_repository mixed_env ''octocat/leetcode'' None
             = Inr (GitHubExtractionError (ValueError ''Invalid GitHub URL format''))"
    using process_repository_summary
            [of mixed_env "''octocat/leetcode''" None "ValueError ''Invalid GitHub URL format''"]
          bad
    by (simp add: mixed_env_def)
  have c: "process_repository (mixed_env\<lparr>env_host := (\<lambda>owner repo start_path. Reply 404 [])\<rparr>)
             ?url None = Inr NoSolutionsFound"
    using process_repository_summary
            [of "mixed_env\<lparr>env_host := (\<lambda>owner repo start_path. Reply 404 [])\<rparr>" ?url None TypeError
                "''octocat''" "''leetcode''" "''''"]
          url empty
    by (simp add: mixed_env_def)
  have d: "process_repository (mixed_env\<lparr>env_db_setup_ok := False\<rparr>) ?url None
             = Inr DatabaseSetupError"
    using process_repository_summary
            [of "mixed_env\<lparr>env_db_setup_ok := False\<rparr>" ?url None TypeError
                "''octocat''" "''leetcode''" "''''"]
          url scan ne
    by (simp add: mixed_env_def)
  have e: "process_repository (mixed_env\<lparr>env_db_connect_ok := False\<rparr>) ?url None
             = Inr DatabaseStorageError"
    using process_repository_summary
            [of "mixed_env\<lparr>env_db_connect_ok := False\<rparr>" ?url None TypeError
                "''octocat''" "''leetcode''" "''''"]
          url scan ne
    by (simp add: mixed_env_def)
  have n: "num_batches example_files = 2" by (simp add: num_batches_def example_files_def)
  have b0: "batch_of example_files 0 = take 3 example_files" by (simp add: batch_of_def)
  have s0: "list_all summarizable
              (parse_gemini_response example_loads example_reply (take 3 example_files))"
    by code_simp
  have g: "\<forall>k < num_batches example_files.
             (case env_gemini mixed_env k (create_gemini_prompt (batch_of example_files k)) of
                Inl e \<Rightarrow> True
              | Inr response \<Rightarrow>
                  list_all summarizable
                    (parse_gemini_response (env_loads mixed_env) response
                       (batch_of example_files k)))"
  proof (intro allI impI)
    fix k assume "k < num_batches example_files"
    then have "k = 0 \<or> k = 1" using n by auto
    then show "case env_gemini mixed_env k (create_gemini_prompt (batch_of example_files k)) of
                Inl e \<Rightarrow> True
              | Inr response \<Rightarrow>
                  list_all summarizable
                    (parse_gemini_response (env_loads mixed_env) response
                       (batch_of example_files k))"
      using s0 b0 by (auto simp: mixed_env_def short_reply_gemini_def)
  qed
  have ok: "env_internet_ok mixed_env \<and> env_db_setup_ok mixed_env \<and> env_db_connect_ok mixed_env"
    by (simp add: mixed_env_def)
  have out: "fst (analyze_with_gemini (env_gemini mixed_env) (env_loads mixed_env) example_files)
               = parse_gemini_response example_loads example_reply (take 3 example_files)
                 @ map failed_record (drop 3 example_files)"
    by code_simp
  have cnt: "length (parse_gemini_response example_loads example_reply (take 3 example_files)
                     @ map failed_record (drop 3 example_files)) = 3"
    by code_simp
  have langs: "set (map record_language
                 (parse_gemini_response example_loads example_reply (take 3 example_files)
                  @ map failed_record (drop 3 example_files)))
               = {PStr ''Python'', PStr ''Go''}"
    by code_simp
  have hyp: "env_internet_ok mixed_env
       \<and> parse_github_url ?url = Inr (''octocat'', ''leetcode'', '''')
       \<and> example_files = scan_repository (env_host mixed_env ''octocat'' ''leetcode'' '''')
       \<and> example_files \<noteq> []
       \<and> env_db_setup_ok mixed_env \<and> env_db_connect_ok mixed_env
       \<and> (\<forall>k < num_batches example_files.
             (case env_gemini mixed_env k (create_gemini_prompt (batch_of example_files k)) of
                Inl e \<Rightarrow> True
              | Inr response \<Rightarrow>
                  list_all summarizable
                    (parse_gemini_response (env_loads mixed_env) response
                       (batch_of example_files k))))"
    using ok url scan [symmetric] ne g by (intro conjI) simp_all
  note t = process_repository_summary
         [of mixed_env ?url None TypeError "''octocat''" "''leetcode''" "''''" example_files,
          THEN conjunct2, THEN conjunct2, THEN conjunct2, THEN conjunct2, THEN conjunct2]
  from t [THEN mp, OF hyp]
  have "process_repository mixed_env ?url None
          = Inr (ProcessComplete
                   (length (fst (analyze_with_gemini (env_gemini mixed_env) (env_loads mixed_env)
                                   example_files)))
                   (set (map record_language
                           (fst (analyze_with_gemini (env_gemini mixed_env) (env_loads mixed_env)
                                   example_files)))))" .
  then have f: "process_repository mixed_env ?url None
                  = Inr (ProcessComplete 3 {PStr ''Python'', PStr ''Go''})"
    unfolding out cnt langs .
  from a b c d e f show ?thesis by blast
qed

end
